theory Spec2Isabelle
  imports Complex_Main
begin

section \<open>Python values used by both engines\<close>

text \<open>
  Strings are lists of characters. \<open>lower\<close> models \<^verbatim>\<open>str.lower()\<close> on ASCII letters
  (other characters are left alone); \<open>str_in a b\<close> models the substring test
  \<^verbatim>\<open>a in b\<close>. Numbers read from JSON (int, float) are represented by their
  mathematical value as \<open>real\<close>: comparisons of Python numbers are exact, rounding of
  float addition is not modelled.
\<close>

definition lower_char :: "char \<Rightarrow> char" where
  "lower_char c =
     (case map_of (zip ''ABCDEFGHIJKLMNOPQRSTUVWXYZ'' ''abcdefghijklmnopqrstuvwxyz'') c of
        None \<Rightarrow> c
      | Some d \<Rightarrow> d)"

definition lower :: "string \<Rightarrow> string" where
  "lower s = map lower_char s"

fun startswith :: "string \<Rightarrow> string \<Rightarrow> bool" where
  "startswith [] ys = True"
| "startswith (x # xs) [] = False"
| "startswith (x # xs) (y # ys) = (x = y \<and> startswith xs ys)"

fun str_in :: "string \<Rightarrow> string \<Rightarrow> bool" where
  "str_in xs [] = (xs = [])"
| "str_in xs (y # ys) = (startswith xs (y # ys) \<or> str_in xs ys)"

text \<open>
  A dict keeps its keys in insertion order; storing under a key that is already present
  replaces the value and keeps the key's position. \<open>dict_of_names\<close> is the comprehension
  \<^verbatim>\<open>{s['name'].lower(): s for s in entries}\<close>.
\<close>

fun dict_set :: "'k \<Rightarrow> 'v \<Rightarrow> ('k \<times> 'v) list \<Rightarrow> ('k \<times> 'v) list" where
  "dict_set k v [] = [(k, v)]"
| "dict_set k v (p # ps) = (if fst p = k then (k, v) # ps else p # dict_set k v ps)"

definition dict_of_names :: "('a \<Rightarrow> string) \<Rightarrow> 'a list \<Rightarrow> (string \<times> 'a) list" where
  "dict_of_names nm entries = foldl (\<lambda>d s. dict_set (lower (nm s)) s d) [] entries"

definition get_or :: "'a option \<Rightarrow> 'a \<Rightarrow> 'a" where
  "get_or x d = (case x of None \<Rightarrow> d | Some v \<Rightarrow> v)"


section \<open>IFRA compliance validator (chemistry/ifra\_validator.py)\<close>

subsection \<open>The standards tables\<close>

text \<open>
  The entries of \<^verbatim>\<open>ifra_standards.json\<close>. A field read with \<^verbatim>\<open>.get\<close> may be
  absent and is an option; \<^verbatim>\<open>s['name']\<close> is read unconditionally.
\<close>

record restricted_substance =
  rs_name :: string
  rs_cas :: "string option"
  rs_max_concentration_cat1 :: "real option"
  rs_max_concentration_cat2 :: "real option"
  rs_reason :: "string option"

record allergen_rule =
  al_name :: string
  al_cas :: "string option"
  al_threshold_cat1 :: "real option"
  al_threshold_cat2 :: "real option"

record phototox_limit =
  pt_name :: string
  pt_max_concentration_cat1 :: "real option"
  pt_reason :: "string option"

record allergen_limit =
  max_total_percentage :: "real option"

record standards =
  restricted_substances :: "restricted_substance list option"
  allergens_declaration_required :: "allergen_rule list option"
  phototoxicity_limits :: "phototox_limit list option"
  total_allergen_limits :: "(string \<times> allergen_limit) list option"

record ingredient =
  ing_name :: "string option"
  ing_concentration :: "real option"
  ing_cas :: "string option"

subsection \<open>Violations and reports\<close>

text \<open>
  The recommendation and summary texts are f-strings; they are kept as the template
  chosen together with the values substituted into it.
\<close>

datatype recommendation =
    Remove_banned string string
  | Reduce_to_max string real string
  | Reduce_for_phototoxicity string real string
  | Remove_banned_allergen string
  | Allergen_load_exceeds real real

datatype summary =
    Fully_compliant
  | Compliant_with_warnings nat nat
  | Critical_violations nat

record IFRAViolation =
  ingredient_name :: string
  cas_number :: "string option"
  violation_type :: string
  current_concentration :: real
  max_allowed :: real
  severity :: string
  recommendation :: recommendation

record declared_allergen =
  da_name :: string
  da_cas :: "string option"
  da_concentration :: real
  da_threshold :: real

record IFRAReport =
  is_compliant :: bool
  violations :: "IFRAViolation list"
  allergens_to_declare :: "declared_allergen list"
  total_allergen_load :: real
  product_category :: string
  summary :: summary

record IFRAValidator =
  v_standards :: standards
  v_loaded :: bool

definition new_validator :: IFRAValidator where
  "new_validator =
     \<lparr>v_standards = \<lparr>restricted_substances = None, allergens_declaration_required = None,
                      phototoxicity_limits = None, total_allergen_limits = None\<rparr>,
      v_loaded = False\<rparr>"

subsection \<open>Loading\<close>

text \<open>
  \<open>load_standards file v\<close>: \<open>file\<close> is the parsed content of the standards file, or
  \<open>None\<close> when the path does not exist.
\<close>

definition load_standards :: "standards option \<Rightarrow> IFRAValidator \<Rightarrow> IFRAValidator" where
  "load_standards file v =
     (if v_loaded v then v
      else case file of
        None \<Rightarrow>
          \<lparr>v_standards = \<lparr>restricted_substances = Some [],
                           allergens_declaration_required = Some [],
                           phototoxicity_limits = Some [], total_allergen_limits = None\<rparr>,
           v_loaded = True\<rparr>
      | Some s \<Rightarrow> \<lparr>v_standards = s, v_loaded = True\<rparr>)"

subsection \<open>The per-ingredient checks\<close>

definition banned_violation :: "string \<Rightarrow> restricted_substance \<Rightarrow> real \<Rightarrow> IFRAViolation" where
  "banned_violation name restricted concentration =
     \<lparr>ingredient_name = name, cas_number = rs_cas restricted, violation_type = ''banned'',
      current_concentration = concentration, max_allowed = 0, severity = ''critical'',
      recommendation = Remove_banned name (get_or (rs_reason restricted) '''')\<rparr>"

definition over_limit_violation ::
  "string \<Rightarrow> restricted_substance \<Rightarrow> real \<Rightarrow> real \<Rightarrow> IFRAViolation" where
  "over_limit_violation name restricted concentration max_conc =
     \<lparr>ingredient_name = name, cas_number = rs_cas restricted, violation_type = ''over_limit'',
      current_concentration = concentration, max_allowed = max_conc, severity = ''critical'',
      recommendation = Reduce_to_max name max_conc (get_or (rs_reason restricted) '''')\<rparr>"

definition phototox_violation ::
  "string \<Rightarrow> phototox_limit \<Rightarrow> real \<Rightarrow> real \<Rightarrow> IFRAViolation" where
  "phototox_violation name phototox concentration max_conc =
     \<lparr>ingredient_name = name, cas_number = None, violation_type = ''phototoxicity'',
      current_concentration = concentration, max_allowed = max_conc, severity = ''critical'',
      recommendation =
        Reduce_for_phototoxicity name max_conc (get_or (pt_reason phototox) '''')\<rparr>"

definition banned_allergen_violation :: "string \<Rightarrow> allergen_rule \<Rightarrow> real \<Rightarrow> IFRAViolation" where
  "banned_allergen_violation name allergen concentration =
     \<lparr>ingredient_name = name, cas_number = al_cas allergen, violation_type = ''banned'',
      current_concentration = concentration, max_allowed = 0, severity = ''critical'',
      recommendation = Remove_banned_allergen name\<rparr>"

definition allergen_load_violation :: "real \<Rightarrow> real \<Rightarrow> IFRAViolation" where
  "allergen_load_violation tload max_total =
     \<lparr>ingredient_name = ''Total Allergens'', cas_number = None,
      violation_type = ''allergen_load'', current_concentration = tload,
      max_allowed = max_total, severity = ''warning'',
      recommendation = Allergen_load_exceeds tload max_total\<rparr>"

text \<open>The three accumulators of the loop: violations, allergens to declare, total load.\<close>

type_synonym acc = "IFRAViolation list \<times> declared_allergen list \<times> real"

definition check_restricted ::
  "(string \<times> restricted_substance) list \<Rightarrow> ingredient \<Rightarrow> acc \<Rightarrow> acc" where
  "check_restricted restricted_map ing a =
     (case a of (vs, ds, tload) \<Rightarrow>
        let name = get_or (ing_name ing) '''';
            name_lower = lower name;
            concentration = get_or (ing_concentration ing) 0
        in case map_of restricted_map name_lower of
             None \<Rightarrow> (vs, ds, tload)
           | Some restricted \<Rightarrow>
               let max_conc = get_or (rs_max_concentration_cat1 restricted) 0
               in if max_conc = 0
                  then (vs @ [banned_violation name restricted concentration], ds, tload)
                  else if concentration > max_conc
                  then (vs @ [over_limit_violation name restricted concentration max_conc],
                        ds, tload)
                  else (vs, ds, tload))"

definition phototox_entry ::
  "ingredient \<Rightarrow> acc \<Rightarrow> string \<times> phototox_limit \<Rightarrow> acc" where
  "phototox_entry ing a item =
     (case a of (vs, ds, tload) \<Rightarrow>
      case item of (phototox_name, phototox) \<Rightarrow>
        let name = get_or (ing_name ing) '''';
            name_lower = lower name;
            concentration = get_or (ing_concentration ing) 0
        in if str_in phototox_name name_lower \<or> str_in name_lower phototox_name
           then let max_conc = get_or (pt_max_concentration_cat1 phototox) 100
                in if concentration > max_conc
                   then (vs @ [phototox_violation name phototox concentration max_conc],
                         ds, tload)
                   else (vs, ds, tload)
           else (vs, ds, tload))"

definition allergen_entry ::
  "ingredient \<Rightarrow> acc \<Rightarrow> string \<times> allergen_rule \<Rightarrow> acc" where
  "allergen_entry ing a item =
     (case a of (vs, ds, tload) \<Rightarrow>
      case item of (allergen_name, allergen) \<Rightarrow>
        let name = get_or (ing_name ing) '''';
            name_lower = lower name;
            concentration = get_or (ing_concentration ing) 0
        in if str_in allergen_name name_lower \<or> str_in name_lower allergen_name
           then let threshold = get_or (al_threshold_cat1 allergen) 0.001
                in if threshold = 0
                   then (vs @ [banned_allergen_violation name allergen concentration],
                         ds, tload)
                   else if concentration \<ge> threshold
                   then (vs,
                         ds @ [\<lparr>da_name = name, da_cas = al_cas allergen,
                                 da_concentration = concentration,
                                 da_threshold = threshold\<rparr>],
                         tload + concentration)
                   else (vs, ds, tload)
           else (vs, ds, tload))"

definition check_ingredient ::
  "(string \<times> restricted_substance) list \<Rightarrow> (string \<times> allergen_rule) list \<Rightarrow>
   (string \<times> phototox_limit) list \<Rightarrow> acc \<Rightarrow> ingredient \<Rightarrow> acc" where
  "check_ingredient restricted_map allergen_map phototox_map a ing =
     foldl (allergen_entry ing)
       (foldl (phototox_entry ing) (check_restricted restricted_map ing a) phototox_map)
       allergen_map"

subsection \<open>validate\_formula\<close>

definition make_summary :: "bool \<Rightarrow> IFRAViolation list \<Rightarrow> nat \<Rightarrow> nat \<Rightarrow> summary" where
  "make_summary compliant vs n_critical n_declare =
     (if compliant \<and> vs = [] then Fully_compliant
      else if compliant then Compliant_with_warnings (length vs) n_declare
      else Critical_violations n_critical)"

text \<open>The cap on the total allergen load, as \<^verbatim>\<open>validate_formula\<close> reads it.\<close>

definition max_total_allergen :: "standards \<Rightarrow> real" where
  "max_total_allergen st =
     (let allergen_limits =
            get_or (map_of (get_or (total_allergen_limits st) []) ''cat1_leave_on'')
              \<lparr>max_total_percentage = None\<rparr>
      in get_or (max_total_percentage allergen_limits) 1.0)"

definition build_report :: "standards \<Rightarrow> ingredient list \<Rightarrow> string \<Rightarrow> IFRAReport" where
  "build_report st ingredients category =
     (let restricted_map = dict_of_names rs_name (get_or (restricted_substances st) []);
          allergen_map = dict_of_names al_name (get_or (allergens_declaration_required st) []);
          phototox_map = dict_of_names pt_name (get_or (phototoxicity_limits st) [])
      in case foldl (check_ingredient restricted_map allergen_map phototox_map)
                ([], [], 0) ingredients of
           (vs, ds, tload) \<Rightarrow>
             let max_total = max_total_allergen st;
                 vs' = (if tload > max_total
                        then vs @ [allergen_load_violation tload max_total] else vs);
                 critical_violations = filter (\<lambda>v. severity v = ''critical'') vs';
                 compliant = (length critical_violations = 0)
             in \<lparr>is_compliant = compliant, violations = vs', allergens_to_declare = ds,
                 total_allergen_load = tload, product_category = category,
                 summary = make_summary compliant vs' (length critical_violations)
                             (length ds)\<rparr>)"

text \<open>
  \<open>validate_formula file v ingredients category\<close> returns the validator after the lazy
  load together with the report.
\<close>

definition validate_formula ::
  "standards option \<Rightarrow> IFRAValidator \<Rightarrow> ingredient list \<Rightarrow> string \<Rightarrow>
   IFRAValidator \<times> IFRAReport" where
  "validate_formula file v ingredients category =
     (let v' = load_standards file v
      in (v', build_report (v_standards v') ingredients category))"

definition get_max_concentration ::
  "standards option \<Rightarrow> IFRAValidator \<Rightarrow> string \<Rightarrow> string \<Rightarrow> IFRAValidator \<times> real option" where
  "get_max_concentration file v iname category =
     (let v' = load_standards file v;
          name_lower = lower iname
      in (v',
          case find (\<lambda>restricted. lower (rs_name restricted) = name_lower)
                 (get_or (restricted_substances (v_standards v')) []) of
            Some restricted \<Rightarrow> rs_max_concentration_cat1 restricted
          | None \<Rightarrow>
              (case find (\<lambda>phototox. str_in (lower (pt_name phototox)) name_lower)
                      (get_or (phototoxicity_limits (v_standards v')) []) of
                 Some phototox \<Rightarrow> pt_max_concentration_cat1 phototox
               | None \<Rightarrow> None)))"


section \<open>Physio-RAG engine (core/physio\_rag.py)\<close>

subsection \<open>JSON values and the operations that can raise\<close>

text \<open>
  A value of a profile or of a rule condition: \<^verbatim>\<open>None\<close>, a number (int, float, and bool,
  which Python treats as the ints 0 and 1), a string or a list. On these values Python's
  \<^verbatim>\<open>==\<close> is equality of the represented values.
\<close>

datatype pyval = PNone | PNum real | PStr string | PList "pyval list"

datatype error = TypeError | AttributeError | KeyError | ZeroDivisionError

type_synonym profile = "string \<rightharpoonup> pyval"

definition is_number :: "pyval \<Rightarrow> bool" where
  "is_number x = (case x of PNum a \<Rightarrow> True | _ \<Rightarrow> False)"

definition is_list :: "pyval \<Rightarrow> bool" where
  "is_list x = (case x of PList xs \<Rightarrow> True | _ \<Rightarrow> False)"

definition py_getitem :: "profile \<Rightarrow> string \<Rightarrow> error + pyval" where
  "py_getitem d k = (case d k of None \<Rightarrow> Inl KeyError | Some v \<Rightarrow> Inr v)"

fun str_lt :: "string \<Rightarrow> string \<Rightarrow> bool" where
  "str_lt [] [] = False"
| "str_lt [] (y # ys) = True"
| "str_lt (x # xs) [] = False"
| "str_lt (x # xs) (y # ys) =
     (if x = y then str_lt xs ys else (of_char x :: nat) < of_char y)"

text \<open>\<^verbatim>\<open>a < b\<close>: defined between two numbers, two strings or two lists, a TypeError otherwise.\<close>

fun py_lt :: "pyval \<Rightarrow> pyval \<Rightarrow> error + bool"
  and list_lt :: "pyval list \<Rightarrow> pyval list \<Rightarrow> error + bool" where
  "py_lt (PNum a) (PNum b) = Inr (a < b)"
| "py_lt (PStr a) (PStr b) = Inr (str_lt a b)"
| "py_lt (PList xs) (PList ys) = list_lt xs ys"
| "py_lt _ _ = Inl TypeError"
| "list_lt [] [] = Inr False"
| "list_lt [] (y # ys) = Inr True"
| "list_lt (x # xs) [] = Inr False"
| "list_lt (x # xs) (y # ys) = (if x = y then list_lt xs ys else py_lt x y)"

definition py_gt :: "pyval \<Rightarrow> pyval \<Rightarrow> error + bool" where
  "py_gt a b = py_lt b a"

text \<open>\<^verbatim>\<open>v in u\<close>\<close>

definition py_in :: "pyval \<Rightarrow> pyval \<Rightarrow> error + bool" where
  "py_in v u =
     (case u of
        PList xs \<Rightarrow> Inr (v \<in> set xs)
      | PStr s \<Rightarrow> (case v of PStr t \<Rightarrow> Inr (str_in t s) | _ \<Rightarrow> Inl TypeError)
      | _ \<Rightarrow> Inl TypeError)"

text \<open>\<^verbatim>\<open>x.lower()\<close> and \<^verbatim>\<open>for a in x\<close> on a profile value\<close>

definition py_lower :: "pyval \<Rightarrow> error + string" where
  "py_lower x = (case x of PStr s \<Rightarrow> Inr (lower s) | _ \<Rightarrow> Inl AttributeError)"

definition py_iter :: "pyval \<Rightarrow> error + pyval list" where
  "py_iter x =
     (case x of
        PList xs \<Rightarrow> Inr xs
      | PStr s \<Rightarrow> Inr (map (\<lambda>c. PStr [c]) s)
      | _ \<Rightarrow> Inl TypeError)"

text \<open>\<^verbatim>\<open>xs[:n]\<close>: a negative \<open>n\<close> counts from the end.\<close>

definition slice_to :: "'a list \<Rightarrow> int \<Rightarrow> 'a list" where
  "slice_to xs n = (if 0 \<le> n then take (nat n) xs else take (length xs - nat (- n)) xs)"

subsection \<open>Rules, retrieved rules and the engine\<close>

record rule_condition =
  parameter :: "string option"
  operator :: "string option"
  cond_value :: "pyval option"

record PhysioRule =
  rule_id :: string
  condition :: rule_condition
  target :: string
  action :: string
  factor :: "real option"
  threshold :: "(string \<times> pyval) list option"
  substitute :: "(string \<times> pyval) list option"
  reasoning :: string

text \<open>An entry of \<^verbatim>\<open>physio_rules.json\<close>, before \<^verbatim>\<open>_load_rules\<close> builds the rule.\<close>

record rule_data =
  rd_id :: string
  rd_condition :: rule_condition
  rd_target :: string
  rd_action :: string
  rd_factor :: "real option"
  rd_threshold :: "(string \<times> pyval) list option"
  rd_substitute :: "(string \<times> pyval) list option"
  rd_reasoning :: "string option"

text \<open>
  The texts built with f-strings are kept as template and arguments: the parts of the
  semantic query, and the \<open>matched_condition\<close> of a retrieved rule.
\<close>

datatype query_part =
    PH_level pyval | Acidic_hint | Alkaline_hint
  | Skin_type string | Dry_hint | Oily_hint
  | Body_temperature pyval | Warm_hint | Cool_hint
  | Allergen_sensitivity pyval

datatype matched_text =
    Condition_text string string pyval
  | Query_text "query_part list"

record RetrievedRule =
  rule :: PhysioRule
  relevance_score :: real
  matched_condition :: matched_text

record 'c PhysioRAG =
  rules :: "PhysioRule list"
  collection :: "'c option"
  embedder :: "string option"
  initialized :: bool

definition new_rag :: "'c PhysioRAG" where
  "new_rag = \<lparr>rules = [], collection = None, embedder = None, initialized = False\<rparr>"

text \<open>
  The vector database is an external library; the engine uses it through these
  operations on a collection of type \<open>'c\<close>. \<open>db_embed_rules c rs\<close> stands for
  \<^verbatim>\<open>_embed_rules\<close> on a non-empty rule list (the documents are built and added);
  it is \<open>None\<close> when the embedding raises ImportError.
\<close>

record 'c vector_db =
  db_importable :: bool
  db_get_or_create_collection :: "bool \<Rightarrow> 'c"
  db_count :: "'c \<Rightarrow> nat"
  db_embed_rules :: "'c \<Rightarrow> PhysioRule list \<Rightarrow> 'c option"
  db_query :: "'c \<Rightarrow> query_part list \<Rightarrow> int \<Rightarrow> string list \<times> real list"

subsection \<open>Initialization\<close>

definition make_rule :: "rule_data \<Rightarrow> PhysioRule" where
  "make_rule d =
     \<lparr>rule_id = rd_id d, condition = rd_condition d, target = rd_target d,
      action = rd_action d, factor = rd_factor d, threshold = rd_threshold d,
      substitute = rd_substitute d, reasoning = get_or (rd_reasoning d) ''''\<rparr>"

text \<open>
  \<open>load_rules file r\<close>: \<open>file\<close> is \<open>None\<close> when the rules file does not exist, else the
  value under its \<^verbatim>\<open>'rules'\<close> key (\<open>None\<close> when the key is absent).
\<close>

definition load_rules :: "rule_data list option option \<Rightarrow> 'c PhysioRAG \<Rightarrow> 'c PhysioRAG" where
  "load_rules file r =
     (case file of
        None \<Rightarrow> r\<lparr>rules := []\<rparr>
      | Some data \<Rightarrow> foldl (\<lambda>r d. r\<lparr>rules := rules r @ [make_rule d]\<rparr>) r (get_or data []))"

definition setup_embedder :: "'c PhysioRAG \<Rightarrow> 'c PhysioRAG" where
  "setup_embedder r = r\<lparr>embedder := Some ''all-MiniLM-L6-v2''\<rparr>"

definition setup_vector_db :: "'c vector_db \<Rightarrow> 'c PhysioRAG \<Rightarrow> 'c PhysioRAG" where
  "setup_vector_db db r =
     (if \<not> db_importable db then r\<lparr>collection := None\<rparr>
      else
        let c = db_get_or_create_collection db (embedder r \<noteq> None)
        in if db_count db c = 0
           then (if rules r = [] then r\<lparr>collection := Some c\<rparr>
                 else case db_embed_rules db c (rules r) of
                        None \<Rightarrow> r\<lparr>collection := None\<rparr>
                      | Some c' \<Rightarrow> r\<lparr>collection := Some c'\<rparr>)
           else r\<lparr>collection := Some c\<rparr>)"

definition initialize ::
  "'c vector_db \<Rightarrow> rule_data list option option \<Rightarrow> 'c PhysioRAG \<Rightarrow> bool \<Rightarrow> 'c PhysioRAG" where
  "initialize db file r use_vector_db =
     (let r1 = load_rules file r;
          r2 = (if use_vector_db then setup_vector_db db (setup_embedder r1) else r1)
      in r2\<lparr>initialized := True\<rparr>)"

subsection \<open>Keyword matching\<close>

text \<open>One iteration of the loop of \<^verbatim>\<open>_keyword_query\<close>: the rule appended, if any.\<close>

definition keyword_match :: "profile \<Rightarrow> PhysioRule \<Rightarrow> error + RetrievedRule option" where
  "keyword_match user_profile r =
     (let param = get_or (parameter (condition r)) '''';
          op = get_or (operator (condition r)) '''';
          val = get_or (cond_value (condition r)) PNone
      in if user_profile param = None \<or> val = PNone then Inr None
         else case py_getitem user_profile param of
           Inl e \<Rightarrow> Inl e
         | Inr user_value \<Rightarrow>
             (case (if op = ''<'' \<and> is_number user_value \<and> is_number val
                    then py_lt user_value val
                    else if op = ''>'' \<and> is_number user_value \<and> is_number val
                    then py_gt user_value val
                    else if op = ''==''
                    then Inr (user_value = val)
                    else if op = ''contains'' \<and> is_list user_value
                    then py_in val user_value
                    else Inr False) of
                Inl e \<Rightarrow> Inl e
              | Inr matches \<Rightarrow>
                  Inr (if matches
                       then Some \<lparr>rule = r, relevance_score = 0.9,
                                  matched_condition = Condition_text param op val\<rparr>
                       else None)))"

fun keyword_scan ::
  "profile \<Rightarrow> PhysioRule list \<Rightarrow> RetrievedRule list \<Rightarrow> error + RetrievedRule list" where
  "keyword_scan user_profile [] matched = Inr matched"
| "keyword_scan user_profile (r # rs) matched =
     (case keyword_match user_profile r of
        Inl e \<Rightarrow> Inl e
      | Inr None \<Rightarrow> keyword_scan user_profile rs matched
      | Inr (Some m) \<Rightarrow> keyword_scan user_profile rs (matched @ [m]))"

text \<open>
  \<^verbatim>\<open>matched.sort(key=..., reverse=True)\<close> is a stable sort into descending order of
  the key: the stable ascending sort by the negated key.
\<close>

definition keyword_query ::
  "PhysioRule list \<Rightarrow> profile \<Rightarrow> int \<Rightarrow> error + RetrievedRule list" where
  "keyword_query rs user_profile n_results =
     (case keyword_scan user_profile rs [] of
        Inl e \<Rightarrow> Inl e
      | Inr matched \<Rightarrow>
          Inr (slice_to (sort_key (\<lambda>x. - relevance_score x) matched) n_results))"

text \<open>One iteration of the loop of \<^verbatim>\<open>get_applicable_rules\<close>: whether the rule is appended.\<close>

definition applicable_match :: "profile \<Rightarrow> PhysioRule \<Rightarrow> error + bool" where
  "applicable_match user_profile r =
     (let param = get_or (parameter (condition r)) '''';
          op = get_or (operator (condition r)) '''';
          val = get_or (cond_value (condition r)) PNone
      in if user_profile param = None \<or> val = PNone then Inr False
         else case py_getitem user_profile param of
           Inl e \<Rightarrow> Inl e
         | Inr user_value \<Rightarrow>
             if op = ''<'' \<and> is_number user_value \<and> is_number val
             then py_lt user_value val
             else if op = ''>'' \<and> is_number user_value \<and> is_number val
             then py_gt user_value val
             else if op = ''=='' \<and> user_value = val
             then Inr True
             else if op = ''contains'' \<and> is_list user_value
             then py_in val user_value
             else Inr False)"

fun applicable_scan ::
  "profile \<Rightarrow> PhysioRule list \<Rightarrow> PhysioRule list \<Rightarrow> error + PhysioRule list" where
  "applicable_scan user_profile [] applicable = Inr applicable"
| "applicable_scan user_profile (r # rs) applicable =
     (case applicable_match user_profile r of
        Inl e \<Rightarrow> Inl e
      | Inr b \<Rightarrow> applicable_scan user_profile rs (if b then applicable @ [r] else applicable))"

definition get_applicable_rules ::
  "'c vector_db \<Rightarrow> rule_data list option option \<Rightarrow> 'c PhysioRAG \<Rightarrow> profile \<Rightarrow>
   error + 'c PhysioRAG \<times> PhysioRule list" where
  "get_applicable_rules db file r user_profile =
     (let r' = (if \<not> initialized r then initialize db file r True else r)
      in case applicable_scan user_profile (rules r') [] of
           Inl e \<Rightarrow> Inl e
         | Inr applicable \<Rightarrow> Inr (r', applicable))"

subsection \<open>query\<close>

definition ph_parts :: "profile \<Rightarrow> error + query_part list" where
  "ph_parts user_profile =
     (case user_profile ''ph'' of
        None \<Rightarrow> Inr []
      | Some ph \<Rightarrow>
          (case py_lt ph (PNum 5.2) of
             Inl e \<Rightarrow> Inl e
           | Inr True \<Rightarrow> Inr [PH_level ph, Acidic_hint]
           | Inr False \<Rightarrow>
               (case py_gt ph (PNum 5.8) of
                  Inl e \<Rightarrow> Inl e
                | Inr True \<Rightarrow> Inr [PH_level ph, Alkaline_hint]
                | Inr False \<Rightarrow> Inr [PH_level ph])))"

definition skin_parts :: "profile \<Rightarrow> error + query_part list" where
  "skin_parts user_profile =
     (case user_profile ''skin_type'' of
        None \<Rightarrow> Inr []
      | Some s \<Rightarrow>
          (case py_lower s of
             Inl e \<Rightarrow> Inl e
           | Inr skin \<Rightarrow>
               Inr (if skin = ''dry'' then [Skin_type skin, Dry_hint]
                    else if skin = ''oily'' then [Skin_type skin, Oily_hint]
                    else [Skin_type skin])))"

definition temperature_parts :: "profile \<Rightarrow> error + query_part list" where
  "temperature_parts user_profile =
     (case user_profile ''temperature'' of
        None \<Rightarrow> Inr []
      | Some temp \<Rightarrow>
          (case py_gt temp (PNum 37.0) of
             Inl e \<Rightarrow> Inl e
           | Inr True \<Rightarrow> Inr [Body_temperature temp, Warm_hint]
           | Inr False \<Rightarrow>
               (case py_lt temp (PNum 36.0) of
                  Inl e \<Rightarrow> Inl e
                | Inr True \<Rightarrow> Inr [Body_temperature temp, Cool_hint]
                | Inr False \<Rightarrow> Inr [Body_temperature temp])))"

definition allergy_parts :: "profile \<Rightarrow> error + query_part list" where
  "allergy_parts user_profile =
     (case user_profile ''allergies'' of
        None \<Rightarrow> Inr []
      | Some a \<Rightarrow>
          (case py_iter a of
             Inl e \<Rightarrow> Inl e
           | Inr xs \<Rightarrow> Inr (map Allergen_sensitivity xs)))"

definition build_query_text :: "profile \<Rightarrow> error + query_part list" where
  "build_query_text user_profile =
     (case ph_parts user_profile of
        Inl e \<Rightarrow> Inl e
      | Inr p1 \<Rightarrow>
     (case skin_parts user_profile of
        Inl e \<Rightarrow> Inl e
      | Inr p2 \<Rightarrow>
     (case temperature_parts user_profile of
        Inl e \<Rightarrow> Inl e
      | Inr p3 \<Rightarrow>
     (case allergy_parts user_profile of
        Inl e \<Rightarrow> Inl e
      | Inr p4 \<Rightarrow> Inr (p1 @ p2 @ p3 @ p4)))))"

definition get_rule_by_id :: "PhysioRule list \<Rightarrow> string \<Rightarrow> PhysioRule option" where
  "get_rule_by_id rs i = find (\<lambda>r. rule_id r = i) rs"

fun vector_results ::
  "PhysioRule list \<Rightarrow> query_part list \<Rightarrow> real list \<Rightarrow> nat \<Rightarrow> string list \<Rightarrow>
   RetrievedRule list \<Rightarrow> error + RetrievedRule list" where
  "vector_results rs query_text distances i [] retrieved = Inr retrieved"
| "vector_results rs query_text distances i (rid # ids) retrieved =
     (case get_rule_by_id rs rid of
        None \<Rightarrow> vector_results rs query_text distances (Suc i) ids retrieved
      | Some r \<Rightarrow>
          let distance = (if i < length distances then distances ! i else 1.0)
          in if 1.0 + distance = 0 then Inl ZeroDivisionError
             else vector_results rs query_text distances (Suc i) ids
                    (retrieved @ [\<lparr>rule = r, relevance_score = 1.0 / (1.0 + distance),
                                    matched_condition = Query_text query_text\<rparr>]))"

definition vector_query ::
  "'c vector_db \<Rightarrow> 'c PhysioRAG \<Rightarrow> query_part list \<Rightarrow> int \<Rightarrow> error + RetrievedRule list" where
  "vector_query db r query_text n_results =
     (case collection r of
        None \<Rightarrow> Inr []
      | Some c \<Rightarrow>
          (case db_query db c query_text n_results of
             (ids, distances) \<Rightarrow> vector_results (rules r) query_text distances 0 ids []))"

definition query ::
  "'c vector_db \<Rightarrow> rule_data list option option \<Rightarrow> 'c PhysioRAG \<Rightarrow> profile \<Rightarrow> int \<Rightarrow>
   error + 'c PhysioRAG \<times> RetrievedRule list" where
  "query db file r user_profile n_results =
     (let r' = (if \<not> initialized r then initialize db file r True else r)
      in case build_query_text user_profile of
           Inl e \<Rightarrow> Inl e
         | Inr query_text \<Rightarrow>
             (case (if collection r' \<noteq> None then vector_query db r' query_text n_results
                    else keyword_query (rules r') user_profile n_results) of
                Inl e \<Rightarrow> Inl e
              | Inr res \<Rightarrow> Inr (r', res)))"



section \<open>Notions used to state and prove the properties\<close>

subsection \<open>Validator\<close>

definition critical_kind :: "IFRAViolation \<Rightarrow> bool" where
  "critical_kind x \<longleftrightarrow>
     severity x = ''critical'' \<and>
     (violation_type x = ''banned'' \<or> violation_type x = ''over_limit'' \<or>
      violation_type x = ''phototoxicity'')"

definition crosses_threshold :: "ingredient \<Rightarrow> string \<times> allergen_rule \<Rightarrow> bool" where
  "crosses_threshold ing item =
     (let name_lower = lower (get_or (ing_name ing) '''');
          threshold = get_or (al_threshold_cat1 (snd item)) 0.001
      in (str_in (fst item) name_lower \<or> str_in name_lower (fst item)) \<and>
         threshold \<noteq> 0 \<and> get_or (ing_concentration ing) 0 \<ge> threshold)"

definition declared_entry :: "ingredient \<Rightarrow> string \<times> allergen_rule \<Rightarrow> declared_allergen" where
  "declared_entry ing item =
     \<lparr>da_name = get_or (ing_name ing) '''', da_cas = al_cas (snd item),
      da_concentration = get_or (ing_concentration ing) 0,
      da_threshold = get_or (al_threshold_cat1 (snd item)) 0.001\<rparr>"

definition extends :: "('x \<Rightarrow> declared_allergen list) \<Rightarrow> 'x list \<Rightarrow> acc \<Rightarrow> acc \<Rightarrow> bool" where
  "extends decl ings a b \<longleftrightarrow>
     (\<exists>nv. fst b = fst a @ nv \<and> list_all critical_kind nv) \<and>
     fst (snd b) = fst (snd a) @ concat (map decl ings) \<and>
     snd (snd b) = snd (snd a) + sum_list (map da_concentration (concat (map decl ings)))"

definition declared_by :: "(string \<times> allergen_rule) list \<Rightarrow> ingredient \<Rightarrow> declared_allergen list" where
  "declared_by allergen_map ing =
     map (declared_entry ing) (filter (crosses_threshold ing) allergen_map)"

text \<open>The violations the restricted-substance check appends for one ingredient.\<close>

definition restricted_violations ::
  "(string \<times> restricted_substance) list \<Rightarrow> ingredient \<Rightarrow> IFRAViolation list" where
  "restricted_violations rm ing = fst (check_restricted rm ing ([], [], 0))"

text \<open>
  The violations the phototoxicity check and the allergen check append for one ingredient,
  all violations of one ingredient, and whether an ingredient reaches the declaration
  threshold of some allergen entry.
\<close>

definition phototox_violations ::
  "(string \<times> phototox_limit) list \<Rightarrow> ingredient \<Rightarrow> IFRAViolation list" where
  "phototox_violations phototox_map ing =
     (let name = get_or (ing_name ing) '''';
          name_lower = lower name;
          concentration = get_or (ing_concentration ing) 0
      in map (\<lambda>item. phototox_violation name (snd item) concentration
                 (get_or (pt_max_concentration_cat1 (snd item)) 100))
           (filter (\<lambda>item. (str_in (fst item) name_lower \<or> str_in name_lower (fst item)) \<and>
                      concentration > get_or (pt_max_concentration_cat1 (snd item)) 100)
              phototox_map))"

definition banned_allergen_violations ::
  "(string \<times> allergen_rule) list \<Rightarrow> ingredient \<Rightarrow> IFRAViolation list" where
  "banned_allergen_violations allergen_map ing =
     (let name = get_or (ing_name ing) '''';
          name_lower = lower name;
          concentration = get_or (ing_concentration ing) 0
      in map (\<lambda>item. banned_allergen_violation name (snd item) concentration)
           (filter (\<lambda>item. (str_in (fst item) name_lower \<or> str_in name_lower (fst item)) \<and>
                      get_or (al_threshold_cat1 (snd item)) 0.001 = 0)
              allergen_map))"

definition ingredient_violations ::
  "(string \<times> restricted_substance) list \<Rightarrow> (string \<times> phototox_limit) list \<Rightarrow>
   (string \<times> allergen_rule) list \<Rightarrow> ingredient \<Rightarrow> IFRAViolation list" where
  "ingredient_violations restricted_map phototox_map allergen_map ing =
     restricted_violations restricted_map ing @ phototox_violations phototox_map ing @
     banned_allergen_violations allergen_map ing"

definition crossed :: "(string \<times> allergen_rule) list \<Rightarrow> ingredient \<Rightarrow> bool" where
  "crossed allergen_map ing = list_ex (crosses_threshold ing) allergen_map"

subsection \<open>Example data\<close>

definition coumarin_entry :: restricted_substance where
  "coumarin_entry =
     \<lparr>rs_name = ''Coumarin'', rs_cas = Some ''91-64-5'',
      rs_max_concentration_cat1 = Some 0.5, rs_max_concentration_cat2 = Some 0,
      rs_reason = None\<rparr>"

definition example_standards :: standards where
  "example_standards =
     \<lparr>restricted_substances = Some [coumarin_entry],
      allergens_declaration_required =
        Some [\<lparr>al_name = ''Linalool'', al_cas = None, al_threshold_cat1 = Some 0.001,
               al_threshold_cat2 = Some 0.01\<rparr>],
      phototoxicity_limits =
        Some [\<lparr>pt_name = ''Bergamot oil'', pt_max_concentration_cat1 = Some 0.4,
               pt_reason = None\<rparr>],
      total_allergen_limits =
        Some [(''cat1_leave_on'', \<lparr>max_total_percentage = Some 1.0\<rparr>),
              (''cat2_rinse_off'', \<lparr>max_total_percentage = Some 0.5\<rparr>)]\<rparr>"

definition coumarin :: "real \<Rightarrow> ingredient" where
  "coumarin c = \<lparr>ing_name = Some ''Coumarin'', ing_concentration = Some c, ing_cas = None\<rparr>"

definition linalool :: "real \<Rightarrow> ingredient" where
  "linalool c = \<lparr>ing_name = Some ''Linalool'', ing_concentration = Some c, ing_cas = None\<rparr>"

definition bergamot :: "real \<Rightarrow> ingredient" where
  "bergamot c = \<lparr>ing_name = Some ''Bergamot'', ing_concentration = Some c, ing_cas = None\<rparr>"

text \<open>A table that bans coumarin outright, as in the specification's scenario.\<close>

definition coumarin_banned_standards :: standards where
  "coumarin_banned_standards =
     \<lparr>restricted_substances =
        Some [\<lparr>rs_name = ''coumarin'', rs_cas = None, rs_max_concentration_cat1 = Some 0,
               rs_max_concentration_cat2 = None, rs_reason = None\<rparr>],
      allergens_declaration_required = None, phototoxicity_limits = None,
      total_allergen_limits = None\<rparr>"

text \<open>A table with two allergen entries of which one name contains the other.\<close>

definition eugenol_standards :: standards where
  "eugenol_standards =
     \<lparr>restricted_substances = None,
      allergens_declaration_required =
        Some [\<lparr>al_name = ''Eugenol'', al_cas = None, al_threshold_cat1 = Some 0.001,
               al_threshold_cat2 = None\<rparr>,
              \<lparr>al_name = ''Isoeugenol'', al_cas = None, al_threshold_cat1 = Some 0.001,
               al_threshold_cat2 = None\<rparr>],
      phototoxicity_limits = None, total_allergen_limits = None\<rparr>"

definition eugenol :: "real \<Rightarrow> ingredient" where
  "eugenol c = \<lparr>ing_name = Some ''Eugenol'', ing_concentration = Some c, ing_cas = None\<rparr>"

subsection \<open>Retrieval engine\<close>

text \<open>
  The operator semantics as the specification words it: \<open><\<close> and \<open>>\<close> hold only between
  two numbers, \<open>==\<close> is equality of the values, \<open>contains\<close> needs a list as profile
  value; a missing profile key and a null rule value are non-matches. An absent
  parameter or operator reads as the empty string, as in the source.
\<close>

definition spec_operator_holds :: "string \<Rightarrow> pyval \<Rightarrow> pyval \<Rightarrow> bool" where
  "spec_operator_holds op u v =
     (if op = ''<'' then (case (u, v) of (PNum a, PNum b) \<Rightarrow> a < b | _ \<Rightarrow> False)
      else if op = ''>'' then (case (u, v) of (PNum a, PNum b) \<Rightarrow> a > b | _ \<Rightarrow> False)
      else if op = ''=='' then u = v
      else if op = ''contains'' then (case u of PList xs \<Rightarrow> v \<in> set xs | _ \<Rightarrow> False)
      else False)"

definition spec_matches :: "profile \<Rightarrow> PhysioRule \<Rightarrow> bool" where
  "spec_matches user_profile r =
     (case user_profile (get_or (parameter (condition r)) '''') of
        None \<Rightarrow> False
      | Some u \<Rightarrow>
          (case cond_value (condition r) of
             None \<Rightarrow> False
           | Some PNone \<Rightarrow> False
           | Some v \<Rightarrow> spec_operator_holds (get_or (operator (condition r)) '''') u v))"

definition retrieved_for :: "PhysioRule \<Rightarrow> RetrievedRule" where
  "retrieved_for r =
     \<lparr>rule = r, relevance_score = 0.9,
      matched_condition =
        Condition_text (get_or (parameter (condition r)) '''')
          (get_or (operator (condition r)) '''') (get_or (cond_value (condition r)) PNone)\<rparr>"

subsection \<open>Example rules and profiles\<close>

definition acidic_data :: rule_data where
  "acidic_data =
     \<lparr>rd_id = ''acidic'',
      rd_condition = \<lparr>parameter = Some ''ph'', operator = Some ''<'',
                       cond_value = Some (PNum 5.2)\<rparr>,
      rd_target = ''top_notes'', rd_action = ''increase'', rd_factor = Some 1.2,
      rd_threshold = None, rd_substitute = None, rd_reasoning = None\<rparr>"

definition alkaline_data :: rule_data where
  "alkaline_data =
     \<lparr>rd_id = ''alkaline'',
      rd_condition = \<lparr>parameter = Some ''ph'', operator = Some ''>'',
                       cond_value = Some (PNum 5.8)\<rparr>,
      rd_target = ''base_notes'', rd_action = ''decrease'', rd_factor = Some 0.8,
      rd_threshold = None, rd_substitute = None, rd_reasoning = None\<rparr>"

definition dry_data :: rule_data where
  "dry_data =
     \<lparr>rd_id = ''dry'',
      rd_condition = \<lparr>parameter = Some ''skin_type'', operator = Some ''=='',
                       cond_value = Some (PStr ''dry'')\<rparr>,
      rd_target = ''fixative'', rd_action = ''increase'', rd_factor = None,
      rd_threshold = None, rd_substitute = None, rd_reasoning = None\<rparr>"

definition example_rule_data :: "rule_data list" where
  "example_rule_data = [acidic_data, alkaline_data, dry_data]"

text \<open>An installation without the vector database: the engine falls back to keywords.\<close>

definition no_vector_db :: "unit vector_db" where
  "no_vector_db =
     \<lparr>db_importable = False, db_get_or_create_collection = (\<lambda>b. ()),
      db_count = (\<lambda>c. 0), db_embed_rules = (\<lambda>c rs. None),
      db_query = (\<lambda>c q n. ([], []))\<rparr>"

definition example_rag :: "unit PhysioRAG" where
  "example_rag = initialize no_vector_db (Some (Some example_rule_data)) new_rag True"

definition dry_acidic_profile :: profile where
  "dry_acidic_profile = [''ph'' \<mapsto> PNum 4.8, ''skin_type'' \<mapsto> PStr ''dry'']"

definition mistyped_profile :: profile where
  "mistyped_profile = [''ph'' \<mapsto> PStr ''acidic'']"

definition mistyped_dry_profile :: profile where
  "mistyped_dry_profile = [''ph'' \<mapsto> PStr ''acidic'', ''skin_type'' \<mapsto> PStr ''dry'']"


section \<open>Properties of the validator\<close>

subsection \<open>The scan over the ingredients\<close>

lemma extends_Nil: "extends decl [] a a"
  by (simp add: extends_def)

lemma extends_append:
  assumes "extends decl xs a b" and "extends decl ys b c"
  shows "extends decl (xs @ ys) a c"
proof -
  from assms(1) obtain nv where ab: "fst b = fst a @ nv" "list_all critical_kind nv"
    unfolding extends_def by blast
  from assms(2) obtain nv' where bc: "fst c = fst b @ nv'" "list_all critical_kind nv'"
    unfolding extends_def by blast
  have "fst c = fst a @ (nv @ nv') \<and> list_all critical_kind (nv @ nv')"
    by (simp add: ab bc)
  then have "\<exists>n. fst c = fst a @ n \<and> list_all critical_kind n" by blast
  with assms show ?thesis
    by (simp add: extends_def)
qed

lemma check_restricted_extends: "extends decl [] a (check_restricted rm ing a)"
  by (cases a)
     (auto simp: check_restricted_def extends_def Let_def critical_kind_def
        banned_violation_def over_limit_violation_def split: option.splits)

lemma phototox_entry_extends: "extends decl [] a (phototox_entry ing a item)"
  by (cases a; cases item)
     (auto simp: phototox_entry_def extends_def Let_def critical_kind_def
        phototox_violation_def)

lemma phototox_loop_extends: "extends decl [] a (foldl (phototox_entry ing) a pm)"
proof (induction pm arbitrary: a)
  case Nil
  show ?case by (simp add: extends_Nil)
next
  case (Cons item pm)
  from extends_append [OF phototox_entry_extends Cons.IH]
  show ?case by simp
qed

lemma allergen_entry_extends:
  "extends (\<lambda>i. map (declared_entry ing) (filter (crosses_threshold ing) [i])) [item] a
     (allergen_entry ing a item)"
  by (cases a; cases item)
     (auto simp: allergen_entry_def extends_def Let_def critical_kind_def
        banned_allergen_violation_def crosses_threshold_def declared_entry_def)

lemma extends_cong:
  assumes "extends d xs a b" and "concat (map d xs) = concat (map d' ys)"
  shows "extends d' ys a b"
  using assms by (simp add: extends_def)

lemma allergen_loop_extends:
  "extends (\<lambda>i. map (declared_entry ing) (filter (crosses_threshold ing) [i])) am a
     (foldl (allergen_entry ing) a am)"
proof (induction am arbitrary: a)
  case Nil
  show ?case by (simp add: extends_Nil)
next
  case (Cons item am)
  from extends_append [OF allergen_entry_extends Cons.IH]
  show ?case by simp
qed

lemma concat_singleton_filter:
  "concat (map (\<lambda>i. map f (filter P [i])) xs) = map f (filter P xs)"
  by (induction xs) simp_all

lemma check_ingredient_extends:
  "extends (declared_by am) [ing] a (check_ingredient rm am pm a ing)"
proof -
  let ?d = "\<lambda>i. map (declared_entry ing) (filter (crosses_threshold ing) [i])"
  have "extends ?d [] a (check_restricted rm ing a)"
    by (rule check_restricted_extends)
  moreover have "extends ?d [] (check_restricted rm ing a)
      (foldl (phototox_entry ing) (check_restricted rm ing a) pm)"
    by (rule phototox_loop_extends)
  ultimately have "extends ?d ([] @ []) a
      (foldl (phototox_entry ing) (check_restricted rm ing a) pm)"
    by (rule extends_append)
  from extends_append [OF this allergen_loop_extends]
  have "extends ?d am a (check_ingredient rm am pm a ing)"
    by (simp add: check_ingredient_def)
  then show ?thesis
    by (rule extends_cong) (simp only: concat_singleton_filter, simp add: declared_by_def)
qed

lemma scan_extends:
  "extends (declared_by am) ings a (foldl (check_ingredient rm am pm) a ings)"
proof (induction ings arbitrary: a)
  case Nil
  show ?case by (simp add: extends_Nil)
next
  case (Cons ing ings)
  from extends_append [OF check_ingredient_extends Cons.IH]
  show ?case by simp
qed

lemma scan_result:
  assumes "foldl (check_ingredient rm am pm) ([], [], 0) ings = (vs, ds, t)"
  shows "list_all critical_kind vs" and "ds = concat (map (declared_by am) ings)"
    and "t = sum_list (map da_concentration ds)"
  using scan_extends [of am ings "([], [], 0)" rm pm] assms
  by (auto simp: extends_def)

subsection \<open>The shape of a report\<close>

lemma build_report_shape:
  obtains vs where
    "list_all critical_kind vs"
    "violations (build_report st ings cat) =
       (if total_allergen_load (build_report st ings cat) > max_total_allergen st
        then vs @ [allergen_load_violation (total_allergen_load (build_report st ings cat))
                     (max_total_allergen st)]
        else vs)"
    "allergens_to_declare (build_report st ings cat) =
       concat (map (declared_by
                      (dict_of_names al_name (get_or (allergens_declaration_required st) [])))
                 ings)"
    "total_allergen_load (build_report st ings cat) =
       sum_list (map da_concentration (allergens_to_declare (build_report st ings cat)))"
    "is_compliant (build_report st ings cat) \<longleftrightarrow>
       filter (\<lambda>x. severity x = ''critical'') (violations (build_report st ings cat)) = []"
    "product_category (build_report st ings cat) = cat"
proof -
  let ?rm = "dict_of_names rs_name (get_or (restricted_substances st) [])"
  let ?am = "dict_of_names al_name (get_or (allergens_declaration_required st) [])"
  let ?pm = "dict_of_names pt_name (get_or (phototoxicity_limits st) [])"
  obtain vs ds t where scan: "foldl (check_ingredient ?rm ?am ?pm) ([], [], 0) ings = (vs, ds, t)"
    by (cases "foldl (check_ingredient ?rm ?am ?pm) ([], [], 0) ings") blast
  note res = scan_result [OF scan]
  show thesis
  proof (rule that [of vs])
    show "list_all critical_kind vs" by (rule res(1))
  qed (use res(2,3) in \<open>simp_all add: build_report_def Let_def scan\<close>)
qed

lemma allergen_load_violation_simps:
  "severity (allergen_load_violation t m) = ''warning''"
  "violation_type (allergen_load_violation t m) = ''allergen_load''"
  "current_concentration (allergen_load_violation t m) = t"
  "max_allowed (allergen_load_violation t m) = m"
  by (simp_all add: allergen_load_violation_def)

lemma filter_critical_kind:
  assumes "list_all critical_kind vs"
  shows "filter (\<lambda>x. severity x = ''critical'') vs = vs"
    and "filter (\<lambda>x. violation_type x = ''allergen_load'') vs = []"
    and "filter (\<lambda>x. violation_type x \<noteq> ''allergen_load'') vs = vs"
  using assms
  by (induction vs) (auto simp: critical_kind_def)

subsection \<open>Lookup maps and the restricted-substance check\<close>

lemma map_of_dict_set: "map_of (dict_set k v d) k' = (if k' = k then Some v else map_of d k')"
  by (induction d) auto

lemma find_append_case:
  "find P (xs @ ys) = (case find P xs of None \<Rightarrow> find P ys | Some x \<Rightarrow> Some x)"
  by (induction xs) simp_all

lemma map_of_dict_fold:
  "map_of (foldl (\<lambda>d s. dict_set (lower (nm s)) s d) d0 xs) k =
     (case find (\<lambda>s. lower (nm s) = k) (rev xs) of None \<Rightarrow> map_of d0 k | Some s \<Rightarrow> Some s)"
proof (induction xs arbitrary: d0)
  case Nil
  show ?case by simp
next
  case (Cons x xs)
  show ?case
    by (simp add: Cons.IH find_append_case map_of_dict_set split: option.splits)
qed

lemma map_of_dict_of_names:
  "map_of (dict_of_names nm xs) k = find (\<lambda>s. lower (nm s) = k) (rev xs)"
  by (simp add: dict_of_names_def map_of_dict_fold split: option.splits)

lemma extends_violations_mono:
  assumes "extends d xs a b"
  shows "set (fst a) \<subseteq> set (fst b)"
  using assms by (auto simp: extends_def)

lemma check_ingredient_keeps_restricted:
  "set (fst (check_restricted rm ing a)) \<subseteq> set (fst (check_ingredient rm am pm a ing))"
proof -
  have "set (fst (check_restricted rm ing a)) \<subseteq>
      set (fst (foldl (phototox_entry ing) (check_restricted rm ing a) pm))"
    by (rule extends_violations_mono) (rule phototox_loop_extends [where decl = "\<lambda>_. []"])
  also have "\<dots> \<subseteq> set (fst (check_ingredient rm am pm a ing))"
    unfolding check_ingredient_def
    by (rule extends_violations_mono) (rule allergen_loop_extends)
  finally show ?thesis .
qed

lemma check_restricted_fst:
  "fst (check_restricted rm ing a) = fst a @ restricted_violations rm ing"
  by (cases a)
     (simp add: check_restricted_def restricted_violations_def Let_def split: option.splits)

lemma scan_contains_restricted:
  assumes "ing \<in> set ings"
  shows "set (restricted_violations rm ing) \<subseteq>
           set (fst (foldl (check_ingredient rm am pm) a ings))"
proof -
  from assms obtain xs ys where ings: "ings = xs @ ing # ys"
    by (auto dest: split_list)
  let ?a1 = "foldl (check_ingredient rm am pm) a xs"
  have "set (restricted_violations rm ing) \<subseteq> set (fst (check_restricted rm ing ?a1))"
    by (simp add: check_restricted_fst)
  also have "\<dots> \<subseteq> set (fst (check_ingredient rm am pm ?a1 ing))"
    by (rule check_ingredient_keeps_restricted)
  also have "\<dots> \<subseteq> set (fst (foldl (check_ingredient rm am pm)
      (check_ingredient rm am pm ?a1 ing) ys))"
    by (rule extends_violations_mono) (rule scan_extends)
  finally show ?thesis by (simp add: ings)
qed

lemma report_contains_restricted:
  assumes "ing \<in> set ings"
  shows "set (restricted_violations (dict_of_names rs_name (get_or (restricted_substances st) []))
            ing) \<subseteq> set (violations (build_report st ings cat))"
proof -
  let ?rm = "dict_of_names rs_name (get_or (restricted_substances st) [])"
  let ?am = "dict_of_names al_name (get_or (allergens_declaration_required st) [])"
  let ?pm = "dict_of_names pt_name (get_or (phototoxicity_limits st) [])"
  have "set (fst (foldl (check_ingredient ?rm ?am ?pm) ([], [], 0) ings)) \<subseteq>
      set (violations (build_report st ings cat))"
    by (auto simp: build_report_def Let_def split: prod.splits)
  with scan_contains_restricted [OF assms, of ?rm ?am ?pm "([], [], 0)"]
  show ?thesis by blast
qed

lemma critical_kind_type:
  "critical_kind x \<Longrightarrow>
     violation_type x = ''banned'' \<or> violation_type x = ''over_limit'' \<or>
     violation_type x = ''phototoxicity''"
  by (simp add: critical_kind_def)

subsection \<open>Loading the standards\<close>

lemma load_standards_idem: "load_standards file (load_standards file v) = load_standards file v"
  by (simp add: load_standards_def split: option.splits)

subsection \<open>The violations and declarations of a report, exactly\<close>

lemma phototox_violations_Cons:
  "phototox_violations (item # pm) ing = phototox_violations [item] ing @ phototox_violations pm ing"
  by (simp add: phototox_violations_def Let_def)

lemma phototox_entry_fst:
  "fst (phototox_entry ing a item) = fst a @ phototox_violations [item] ing"
  by (cases a; cases item) (simp add: phototox_entry_def phototox_violations_def Let_def)

lemma phototox_loop_fst:
  "fst (foldl (phototox_entry ing) a pm) = fst a @ phototox_violations pm ing"
proof (induction pm arbitrary: a)
  case Nil
  show ?case by (simp add: phototox_violations_def)
next
  case (Cons item pm)
  show ?case
    by (simp add: Cons.IH phototox_entry_fst phototox_violations_Cons [of item pm])
qed

lemma banned_allergen_violations_Cons:
  "banned_allergen_violations (item # am) ing =
     banned_allergen_violations [item] ing @ banned_allergen_violations am ing"
  by (simp add: banned_allergen_violations_def Let_def)

lemma allergen_entry_fst:
  "fst (allergen_entry ing a item) = fst a @ banned_allergen_violations [item] ing"
  by (cases a; cases item)
     (simp add: allergen_entry_def banned_allergen_violations_def Let_def)

lemma allergen_loop_fst:
  "fst (foldl (allergen_entry ing) a am) = fst a @ banned_allergen_violations am ing"
proof (induction am arbitrary: a)
  case Nil
  show ?case by (simp add: banned_allergen_violations_def)
next
  case (Cons item am)
  show ?case
    by (simp add: Cons.IH allergen_entry_fst banned_allergen_violations_Cons [of item am])
qed

lemma check_ingredient_fst:
  "fst (check_ingredient rm am pm a ing) = fst a @ ingredient_violations rm pm am ing"
  by (simp add: check_ingredient_def allergen_loop_fst phototox_loop_fst check_restricted_fst
      ingredient_violations_def)

lemma scan_fst:
  "fst (foldl (check_ingredient rm am pm) a ings) =
     fst a @ concat (map (ingredient_violations rm pm am) ings)"
  by (induction ings arbitrary: a) (simp_all add: check_ingredient_fst)

lemma build_report_violations:
  "violations (build_report st ings cat) =
     concat (map (ingredient_violations
                    (dict_of_names rs_name (get_or (restricted_substances st) []))
                    (dict_of_names pt_name (get_or (phototoxicity_limits st) []))
                    (dict_of_names al_name (get_or (allergens_declaration_required st) [])))
               ings) @
     (if total_allergen_load (build_report st ings cat) > max_total_allergen st
      then [allergen_load_violation (total_allergen_load (build_report st ings cat))
              (max_total_allergen st)]
      else [])"
proof -
  let ?rm = "dict_of_names rs_name (get_or (restricted_substances st) [])"
  let ?am = "dict_of_names al_name (get_or (allergens_declaration_required st) [])"
  let ?pm = "dict_of_names pt_name (get_or (phototoxicity_limits st) [])"
  obtain vs ds t where scan: "foldl (check_ingredient ?rm ?am ?pm) ([], [], 0) ings = (vs, ds, t)"
    by (cases "foldl (check_ingredient ?rm ?am ?pm) ([], [], 0) ings") blast
  have "vs = concat (map (ingredient_violations ?rm ?pm ?am) ings)"
    using scan_fst [of ?rm ?am ?pm "([], [], 0)" ings] by (simp add: scan)
  then show ?thesis
    by (simp add: build_report_def Let_def scan)
qed

lemma declared_by_single:
  assumes "length (filter (crosses_threshold ing) am) \<le> 1"
  shows "map (\<lambda>d. (da_name d, da_concentration d)) (declared_by am ing) =
     (if crossed am ing
      then [(get_or (ing_name ing) '''', get_or (ing_concentration ing) 0)] else [])"
proof (cases "filter (crosses_threshold ing) am")
  case Nil
  then have "\<not> crossed am ing"
    by (simp add: crossed_def list_ex_iff filter_empty_conv)
  with Nil show ?thesis by (simp add: declared_by_def)
next
  case (Cons item rest)
  with assms have rest: "rest = []" by simp
  from Cons have "item \<in> set (filter (crosses_threshold ing) am)" by simp
  then have "crossed am ing"
    by (auto simp: crossed_def list_ex_iff)
  with Cons rest show ?thesis
    by (simp add: declared_by_def declared_entry_def)
qed

lemma declared_single_scan:
  assumes "\<forall>ing \<in> set ings. length (filter (crosses_threshold ing) am) \<le> 1"
  shows "map (\<lambda>d. (da_name d, da_concentration d)) (concat (map (declared_by am) ings)) =
     map (\<lambda>ing. (get_or (ing_name ing) '''', get_or (ing_concentration ing) 0))
       (filter (crossed am) ings)"
  using assms
proof (induction ings)
  case Nil
  show ?case by simp
next
  case (Cons ing ings)
  then show ?case
    by (simp add: declared_by_single)
qed


section \<open>Claims about the validator\<close>

text \<open>
  C1 (as amended). For every ingredient list and every category string,
  \<open>validate_formula\<close> compares each ingredient that has a restricted-substance entry
  (the last entry of the table whose lower-cased name equals the lower-cased ingredient
  name) against that entry's \<open>max_concentration_cat1\<close> (0 when absent), whatever category
  is passed: if that maximum is 0 the report holds a \<open>banned\<close> violation with severity
  critical and \<open>max_allowed\<close> 0, else if the concentration strictly exceeds it the report
  holds an \<open>over_limit\<close> violation with severity critical and \<open>max_allowed\<close> equal to
  that maximum.
\<close>

theorem restricted_check_uses_cat1:
  assumes "ing \<in> set ings"
    and "find (\<lambda>s. lower (rs_name s) = lower (get_or (ing_name ing) ''''))
           (rev (get_or (restricted_substances (v_standards (load_standards file v))) []))
         = Some e"
  shows
    "(get_or (rs_max_concentration_cat1 e) 0 = 0 \<longrightarrow>
        (\<exists>x \<in> set (violations (snd (validate_formula file v ings cat))).
           ingredient_name x = get_or (ing_name ing) '''' \<and> cas_number x = rs_cas e \<and>
           violation_type x = ''banned'' \<and> severity x = ''critical'' \<and> max_allowed x = 0 \<and>
           current_concentration x = get_or (ing_concentration ing) 0)) \<and>
     (get_or (rs_max_concentration_cat1 e) 0 \<noteq> 0 \<and>
      get_or (ing_concentration ing) 0 > get_or (rs_max_concentration_cat1 e) 0 \<longrightarrow>
        (\<exists>x \<in> set (violations (snd (validate_formula file v ings cat))).
           ingredient_name x = get_or (ing_name ing) '''' \<and> cas_number x = rs_cas e \<and>
           violation_type x = ''over_limit'' \<and> severity x = ''critical'' \<and>
           max_allowed x = get_or (rs_max_concentration_cat1 e) 0 \<and>
           current_concentration x = get_or (ing_concentration ing) 0))"
proof -
  let ?st = "v_standards (load_standards file v)"
  let ?rm = "dict_of_names rs_name (get_or (restricted_substances ?st) [])"
  let ?name = "get_or (ing_name ing) ''''"
  let ?conc = "get_or (ing_concentration ing) 0"
  let ?m = "get_or (rs_max_concentration_cat1 e) 0"
  have look: "map_of ?rm (lower ?name) = Some e"
    using assms(2) by (simp add: map_of_dict_of_names)
  have sub: "set (restricted_violations ?rm ing) \<subseteq>
      set (violations (snd (validate_formula file v ings cat)))"
    using report_contains_restricted [OF assms(1), of ?st cat]
    by (simp add: validate_formula_def Let_def)
  have banned: "banned_violation ?name e ?conc \<in> set (restricted_violations ?rm ing)"
    if "?m = 0"
    using that look by (simp add: restricted_violations_def check_restricted_def Let_def)
  have over: "over_limit_violation ?name e ?conc ?m \<in> set (restricted_violations ?rm ing)"
    if "?m \<noteq> 0" "?conc > ?m"
    using that look by (simp add: restricted_violations_def check_restricted_def Let_def)
  show ?thesis
  proof (intro conjI impI)
    assume "?m = 0"
    with banned sub have "banned_violation ?name e ?conc \<in>
        set (violations (snd (validate_formula file v ings cat)))" by blast
    then show "\<exists>x \<in> set (violations (snd (validate_formula file v ings cat))).
           ingredient_name x = ?name \<and> cas_number x = rs_cas e \<and>
           violation_type x = ''banned'' \<and> severity x = ''critical'' \<and> max_allowed x = 0 \<and>
           current_concentration x = ?conc"
      by (rule bexI [rotated]) (simp add: banned_violation_def)
  next
    assume "?m \<noteq> 0 \<and> ?conc > ?m"
    with over sub have "over_limit_violation ?name e ?conc ?m \<in>
        set (violations (snd (validate_formula file v ings cat)))" by blast
    then show "\<exists>x \<in> set (violations (snd (validate_formula file v ings cat))).
           ingredient_name x = ?name \<and> cas_number x = rs_cas e \<and>
           violation_type x = ''over_limit'' \<and> severity x = ''critical'' \<and>
           max_allowed x = ?m \<and> current_concentration x = ?conc"
      by (rule bexI [rotated]) (simp add: over_limit_violation_def)
  qed
qed

text \<open>Witness: coumarin at 0.8 percent against its cat1 limit of 0.5, validated for cat2.\<close>

theorem restricted_check_uses_cat1_witness:
  "coumarin 0.8 \<in> set [coumarin 0.8] \<and>
   find (\<lambda>s. lower (rs_name s) = lower (get_or (ing_name (coumarin 0.8)) ''''))
     (rev (get_or (restricted_substances
        (v_standards (load_standards (Some example_standards) new_validator))) []))
     = Some coumarin_entry \<and>
   (\<exists>x \<in> set (violations (snd (validate_formula (Some example_standards) new_validator
        [coumarin 0.8] ''cat2''))).
      violation_type x = ''over_limit'' \<and> severity x = ''critical'' \<and>
      max_allowed x = 1 / 2)"
proof -
  have mem: "coumarin 0.8 \<in> set [coumarin 0.8]"
    by simp
  have look: "find (\<lambda>s. lower (rs_name s) = lower (get_or (ing_name (coumarin 0.8)) ''''))
     (rev (get_or (restricted_substances
        (v_standards (load_standards (Some example_standards) new_validator))) []))
     = Some coumarin_entry"
    by code_simp
  have lim: "get_or (rs_max_concentration_cat1 coumarin_entry) 0 = 1 / 2"
    by (simp add: coumarin_entry_def get_or_def)
  have conc: "get_or (ing_concentration (coumarin 0.8)) 0 = 8 / 10"
    by (simp add: coumarin_def get_or_def)
  from restricted_check_uses_cat1 [OF mem look, of "''cat2''"]
  have "\<exists>x \<in> set (violations (snd (validate_formula (Some example_standards) new_validator
        [coumarin 0.8] ''cat2''))).
      violation_type x = ''over_limit'' \<and> severity x = ''critical'' \<and>
      max_allowed x = 1 / 2"
    unfolding lim conc by auto
  with mem look show ?thesis by blast
qed

text \<open>
  The claim as stated fails for cat2: the entry bans coumarin in cat2
  (\<open>max_concentration_cat2\<close> is 0) and allows 0.5 percent in cat1; coumarin at 0.1
  percent validated for cat2 yields no violation at all.
\<close>

theorem category_limit_counterexample:
  "find (\<lambda>s. lower (rs_name s) = lower ''Coumarin'')
     (get_or (restricted_substances example_standards) []) = Some coumarin_entry \<and>
   rs_max_concentration_cat2 coumarin_entry = Some 0 \<and>
   violations (snd (validate_formula (Some example_standards) new_validator
      [coumarin 0.1] ''cat2'')) = []"
  by code_simp

text \<open>
  C2 (as amended). For every category string and every ingredient list in which no
  ingredient reaches the declaration threshold of more than one allergen entry, the
  \<open>total_allergen_load\<close> of the report equals the sum of the concentrations of the
  ingredients that crossed their declaration threshold (\<open>threshold_cat1\<close>), each of
  which appears, once, in \<open>allergens_to_declare\<close>. A declaration emits no violation: the
  violations are exactly those of the restricted-substance check, the phototoxicity
  check and the banned allergens, followed by the aggregate one. Exactly when the load
  strictly exceeds the \<open>max_total_percentage\<close> of \<open>cat1_leave_on\<close> (1.0 when absent),
  whatever category is passed, one \<open>allergen_load\<close> violation is present, of severity
  warning; and \<open>is_compliant\<close> holds iff there is no violation other than that one.
\<close>

theorem allergen_load_uses_cat1_cap:
  assumes "\<forall>ing \<in> set ings.
     length (filter (crosses_threshold ing)
       (dict_of_names al_name
          (get_or (allergens_declaration_required (v_standards (load_standards file v))) [])))
       \<le> 1"
  shows
   "map (\<lambda>d. (da_name d, da_concentration d))
      (allergens_to_declare (snd (validate_formula file v ings cat))) =
      map (\<lambda>ing. (get_or (ing_name ing) '''', get_or (ing_concentration ing) 0))
        (filter (crossed (dict_of_names al_name
           (get_or (allergens_declaration_required (v_standards (load_standards file v))) [])))
           ings) \<and>
    total_allergen_load (snd (validate_formula file v ings cat)) =
      sum_list (map (\<lambda>ing. get_or (ing_concentration ing) 0)
        (filter (crossed (dict_of_names al_name
           (get_or (allergens_declaration_required (v_standards (load_standards file v))) [])))
           ings)) \<and>
    violations (snd (validate_formula file v ings cat)) =
      concat (map (ingredient_violations
          (dict_of_names rs_name
             (get_or (restricted_substances (v_standards (load_standards file v))) []))
          (dict_of_names pt_name
             (get_or (phototoxicity_limits (v_standards (load_standards file v))) []))
          (dict_of_names al_name
             (get_or (allergens_declaration_required (v_standards (load_standards file v))) [])))
        ings) @
      (if total_allergen_load (snd (validate_formula file v ings cat)) >
          max_total_allergen (v_standards (load_standards file v))
       then [allergen_load_violation (total_allergen_load (snd (validate_formula file v ings cat)))
               (max_total_allergen (v_standards (load_standards file v)))]
       else []) \<and>
    map severity (filter (\<lambda>x. violation_type x = ''allergen_load'')
        (violations (snd (validate_formula file v ings cat)))) =
      (if total_allergen_load (snd (validate_formula file v ings cat)) >
          max_total_allergen (v_standards (load_standards file v))
       then [''warning''] else []) \<and>
    (is_compliant (snd (validate_formula file v ings cat)) \<longleftrightarrow>
       filter (\<lambda>x. violation_type x \<noteq> ''allergen_load'')
         (violations (snd (validate_formula file v ings cat))) = [])"
proof -
  let ?st = "v_standards (load_standards file v)"
  let ?am = "dict_of_names al_name (get_or (allergens_declaration_required ?st) [])"
  let ?r = "build_report ?st ings cat"
  have r: "snd (validate_formula file v ings cat) = ?r"
    by (simp add: validate_formula_def Let_def)
  obtain vs where vs: "list_all critical_kind vs"
    and viol: "violations ?r =
       (if total_allergen_load ?r > max_total_allergen ?st
        then vs @ [allergen_load_violation (total_allergen_load ?r) (max_total_allergen ?st)]
        else vs)"
    and decl: "allergens_to_declare ?r = concat (map (declared_by ?am) ings)"
    and load: "total_allergen_load ?r =
       sum_list (map da_concentration (allergens_to_declare ?r))"
    and compl: "is_compliant ?r \<longleftrightarrow>
       filter (\<lambda>x. severity x = ''critical'') (violations ?r) = []"
    by (rule build_report_shape [of ?st ings cat])
  note f = filter_critical_kind [OF vs]
  have pairs: "map (\<lambda>d. (da_name d, da_concentration d)) (allergens_to_declare ?r) =
      map (\<lambda>ing. (get_or (ing_name ing) '''', get_or (ing_concentration ing) 0))
        (filter (crossed ?am) ings)"
    unfolding decl using assms by (rule declared_single_scan)
  have "map da_concentration (allergens_to_declare ?r) =
      map snd (map (\<lambda>d. (da_name d, da_concentration d)) (allergens_to_declare ?r))"
    by (simp add: comp_def)
  also have "\<dots> = map (\<lambda>ing. get_or (ing_concentration ing) 0) (filter (crossed ?am) ings)"
    unfolding pairs by (simp add: comp_def)
  finally have sum: "total_allergen_load ?r =
      sum_list (map (\<lambda>ing. get_or (ing_concentration ing) 0) (filter (crossed ?am) ings))"
    by (simp add: load)
  have sev: "map severity (filter (\<lambda>x. violation_type x = ''allergen_load'') (violations ?r)) =
     (if total_allergen_load ?r > max_total_allergen ?st then [''warning''] else [])"
    by (simp add: viol f allergen_load_violation_simps)
  have "filter (\<lambda>x. severity x = ''critical'') (violations ?r) = vs"
    by (simp add: viol f allergen_load_violation_simps)
  moreover have "filter (\<lambda>x. violation_type x \<noteq> ''allergen_load'') (violations ?r) = vs"
    by (simp add: viol f allergen_load_violation_simps)
  ultimately have c: "is_compliant ?r \<longleftrightarrow>
      filter (\<lambda>x. violation_type x \<noteq> ''allergen_load'') (violations ?r) = []"
    by (simp add: compl)
  note exact = build_report_violations [of ?st ings cat]
  from pairs sum exact sev c show ?thesis
    unfolding r by (intro conjI)
qed

text \<open>
  Witness: linalool at 1.5 percent and coumarin at 0.1 percent, validated for cat2; only
  linalool is declared, the load 1.5 is over the cat1 cap of 1.0, the one violation is
  the warning and the report is compliant.
\<close>

theorem allergen_load_uses_cat1_cap_witness:
  "total_allergen_load (snd (validate_formula (Some example_standards) new_validator
      [linalool 1.5, coumarin 0.1] ''cat2'')) = 3 / 2 \<and>
   max_total_allergen (v_standards (load_standards (Some example_standards) new_validator)) = 1 \<and>
   map severity (filter (\<lambda>x. violation_type x = ''allergen_load'')
       (violations (snd (validate_formula (Some example_standards) new_validator
          [linalool 1.5, coumarin 0.1] ''cat2'')))) = [''warning''] \<and>
   is_compliant (snd (validate_formula (Some example_standards) new_validator
      [linalool 1.5, coumarin 0.1] ''cat2''))"
proof -
  let ?ings = "[linalool 1.5, coumarin 0.1]"
  let ?r = "snd (validate_formula (Some example_standards) new_validator ?ings ''cat2'')"
  let ?am = "dict_of_names al_name (get_or (allergens_declaration_required
      (v_standards (load_standards (Some example_standards) new_validator))) [])"
  have single: "list_all (\<lambda>ing. length (filter (crosses_threshold ing) ?am) \<le> 1) ?ings"
    by code_simp
  then have h: "\<forall>ing \<in> set ?ings. length (filter (crosses_threshold ing) ?am) \<le> 1"
    by (simp only: list_all_iff)
  have crossed_sum: "sum_list (map (\<lambda>ing. get_or (ing_concentration ing) 0)
      (filter (crossed ?am) ?ings)) = 3 / 2"
    by code_simp
  have cap: "max_total_allergen (v_standards (load_standards (Some example_standards)
      new_validator)) = 1"
    by code_simp
  have none: "filter (\<lambda>x. violation_type x \<noteq> ''allergen_load'') (violations ?r) = []"
    by code_simp
  note inst = allergen_load_uses_cat1_cap [OF h, of "''cat2''"]
  from inst have load: "total_allergen_load ?r = 3 / 2"
    by (simp only: crossed_sum)
  from inst have "map severity (filter (\<lambda>x. violation_type x = ''allergen_load'') (violations ?r)) =
      (if total_allergen_load ?r > max_total_allergen (v_standards (load_standards
         (Some example_standards) new_validator)) then [''warning''] else [])"
    by blast
  then have sev: "map severity (filter (\<lambda>x. violation_type x = ''allergen_load'')
      (violations ?r)) = [''warning'']"
    by (simp only: load cap) simp
  from inst none have "is_compliant ?r"
    by blast
  with load cap sev show ?thesis
    by (intro conjI)
qed

text \<open>
  The claim as stated fails twice. For cat2: the cap of \<open>cat2_rinse_off\<close> is 0.5, the
  declared load is 0.7, and the report validated for cat2 holds no \<open>allergen_load\<close>
  violation. And an ingredient is counted once for every allergen entry it matches:
  eugenol at 0.6 percent matches the entries Eugenol and Isoeugenol, is declared twice,
  and the load is 1.2 where the one ingredient that crossed a threshold has 0.6.
\<close>

theorem category_cap_counterexample:
  "total_allergen_load (snd (validate_formula (Some example_standards) new_validator
      [linalool 0.7] ''cat2'')) = 7 / 10 \<and>
   map_of (get_or (total_allergen_limits example_standards) []) ''cat2_rinse_off'' =
     Some \<lparr>max_total_percentage = Some (1 / 2)\<rparr> \<and>
   filter (\<lambda>x. violation_type x = ''allergen_load'')
     (violations (snd (validate_formula (Some example_standards) new_validator
        [linalool 0.7] ''cat2''))) = [] \<and>
   map ing_concentration [eugenol 0.6] = [Some (6 / 10)] \<and>
   map da_name (allergens_to_declare (snd (validate_formula (Some eugenol_standards)
      new_validator [eugenol 0.6] ''cat1''))) = [''Eugenol'', ''Eugenol''] \<and>
   total_allergen_load (snd (validate_formula (Some eugenol_standards) new_validator
      [eugenol 0.6] ''cat1'')) = 12 / 10 \<and>
   map violation_type (violations (snd (validate_formula (Some eugenol_standards)
      new_validator [eugenol 0.6] ''cat1''))) = [''allergen_load'']"
  by code_simp

text \<open>
  C3. For every ingredient list and product category, the report returned by
  \<open>validate_formula\<close> has \<open>is_compliant\<close> true if and only if no violation in its list
  has severity critical; in particular a report whose violations all have severity
  warning is compliant.
\<close>

theorem compliant_iff_no_critical:
  "(is_compliant (snd (validate_formula file v ings cat)) \<longleftrightarrow>
      (\<forall>x \<in> set (violations (snd (validate_formula file v ings cat))).
         severity x \<noteq> ''critical'')) \<and>
   ((\<forall>x \<in> set (violations (snd (validate_formula file v ings cat))).
       severity x = ''warning'') \<longrightarrow>
    is_compliant (snd (validate_formula file v ings cat)))"
proof -
  let ?r = "build_report (v_standards (load_standards file v)) ings cat"
  have iff: "is_compliant ?r \<longleftrightarrow> (\<forall>x \<in> set (violations ?r). severity x \<noteq> ''critical'')"
    by (rule build_report_shape [of "v_standards (load_standards file v)" ings cat])
       (simp add: filter_empty_conv)
  have "is_compliant ?r" if "\<forall>x \<in> set (violations ?r). severity x = ''warning''"
    using that iff by auto
  with iff show ?thesis
    by (simp add: validate_formula_def Let_def)
qed

text \<open>
  Witness: one ingredient declared as an allergen at 1.5 percent exceeds the cap of 1.0; the
  only violation is the warning, and the report is compliant.
\<close>

theorem compliant_iff_no_critical_witness:
  "map severity (violations (snd (validate_formula (Some example_standards) new_validator
      [linalool 1.5] ''cat1''))) = [''warning''] \<and>
   is_compliant (snd (validate_formula (Some example_standards) new_validator
      [linalool 1.5] ''cat1''))"
proof -
  let ?r = "snd (validate_formula (Some example_standards) new_validator
      [linalool 1.5] ''cat1'')"
  have sev: "map severity (violations ?r) = [''warning'']"
    by code_simp
  have "\<forall>x \<in> set (map severity (violations ?r)). x = ''warning''"
    by (simp only: sev) simp
  then have "\<forall>x \<in> set (violations ?r). severity x = ''warning''"
    by simp
  with compliant_iff_no_critical [of "Some example_standards" new_validator
      "[linalool 1.5]" "''cat1''"]
  have "is_compliant ?r" by blast
  with sev show ?thesis by blast
qed

text \<open>
  C6. \<open>get_max_concentration\<close> is claimed to match a phototoxicity entry by substring in
  the same two directions as the phototoxicity check of \<open>validate_formula\<close>. It tests
  one direction only: for the ingredient Bergamot and the entry Bergamot oil (limit 0.4)
  it answers None, unrestricted, while \<open>validate_formula\<close> reports the same ingredient
  against that limit.
\<close>

theorem max_concentration_one_direction:
  "snd (get_max_concentration (Some example_standards) new_validator ''Bergamot'' ''cat1'') = None \<and>
   map (\<lambda>x. (violation_type x, max_allowed x))
     (violations (snd (validate_formula (Some example_standards) new_validator
        [bergamot 1] ''cat1''))) = [(''phototoxicity'', 4 / 10)]"
  by code_simp

text \<open>
  C9. For every ingredient list and any two category strings, the two reports returned by
  \<open>validate_formula\<close> are identical except for the \<open>product_category\<close> field echoed
  into the report (and the validator is left in the same state): the category influences
  no violation, no threshold comparison, no allergen declaration and not the compliance
  decision.
\<close>

theorem category_only_echoed:
  "validate_formula file v ings c1 =
     (fst (validate_formula file v ings c2),
      (snd (validate_formula file v ings c2))\<lparr>product_category := c1\<rparr>)"
  by (simp add: validate_formula_def build_report_def Let_def split: prod.splits)

text \<open>
  C10. In every report returned by \<open>validate_formula\<close>, every violation has severity
  critical except at most one, of type \<open>allergen_load\<close> and severity warning, which is then
  the last element of the list; no violation has severity info.
\<close>

theorem violation_severities:
  "(\<forall>x \<in> set (butlast (violations (snd (validate_formula file v ings cat)))).
      severity x = ''critical'') \<and>
   (violations (snd (validate_formula file v ings cat)) \<noteq> [] \<longrightarrow>
      severity (last (violations (snd (validate_formula file v ings cat)))) = ''critical'' \<or>
      (violation_type (last (violations (snd (validate_formula file v ings cat)))) =
         ''allergen_load'' \<and>
       severity (last (violations (snd (validate_formula file v ings cat)))) = ''warning'')) \<and>
   (\<forall>x \<in> set (violations (snd (validate_formula file v ings cat))).
      severity x \<noteq> ''info'' \<and>
      (severity x = ''warning'' \<longrightarrow> violation_type x = ''allergen_load''))"
proof -
  let ?r = "build_report (v_standards (load_standards file v)) ings cat"
  obtain vs where vs: "list_all critical_kind vs"
    and shape: "violations ?r = vs \<or> (\<exists>w. violations ?r = vs @ [w] \<and>
        violation_type w = ''allergen_load'' \<and> severity w = ''warning'')"
    by (rule build_report_shape [of "v_standards (load_standards file v)" ings cat])
       (auto simp: allergen_load_violation_simps)
  have crit: "severity x = ''critical''" if "x \<in> set vs" for x
    using vs that by (simp add: list_all_iff critical_kind_def)
  from shape have "?thesis"
  proof
    assume "violations ?r = vs"
    then show ?thesis
      using crit by (auto simp: validate_formula_def Let_def dest: in_set_butlastD)
  next
    assume "\<exists>w. violations ?r = vs @ [w] \<and>
        violation_type w = ''allergen_load'' \<and> severity w = ''warning''"
    then obtain w where "violations ?r = vs @ [w]" "violation_type w = ''allergen_load''"
      "severity w = ''warning''" by blast
    then show ?thesis
      using crit by (auto simp: validate_formula_def Let_def)
  qed
  then show ?thesis .
qed

text \<open>
  Witness: coumarin over its limit and an allergen load above the cap give a critical
  violation followed by the warning.
\<close>

theorem violation_severities_witness:
  "map severity (butlast (violations (snd (validate_formula (Some example_standards)
      new_validator [coumarin 0.8, linalool 1.5] ''cat1'')))) = [''critical''] \<and>
   (severity (last (violations (snd (validate_formula (Some example_standards) new_validator
      [coumarin 0.8, linalool 1.5] ''cat1'')))) = ''critical'' \<or>
    violation_type (last (violations (snd (validate_formula (Some example_standards)
      new_validator [coumarin 0.8, linalool 1.5] ''cat1'')))) = ''allergen_load'' \<and>
    severity (last (violations (snd (validate_formula (Some example_standards)
      new_validator [coumarin 0.8, linalool 1.5] ''cat1'')))) = ''warning'')"
proof -
  let ?r = "snd (validate_formula (Some example_standards) new_validator
      [coumarin 0.8, linalool 1.5] ''cat1'')"
  have ne: "violations ?r \<noteq> []"
    by code_simp
  have sev: "map severity (butlast (violations ?r)) = [''critical'']"
    by code_simp
  from ne sev violation_severities [of "Some example_standards" new_validator
      "[coumarin 0.8, linalool 1.5]" "''cat1''"]
  show ?thesis by blast
qed

subsection \<open>The scenarios of the specification\<close>

lemma scenario_banned_coumarin:
  "map (\<lambda>x. (violation_type x, severity x, max_allowed x))
     (violations (snd (validate_formula (Some coumarin_banned_standards) new_validator
        [coumarin 0.8] ''cat1''))) = [(''banned'', ''critical'', 0)] \<and>
   \<not> is_compliant (snd (validate_formula (Some coumarin_banned_standards) new_validator
        [coumarin 0.8] ''cat1''))"
  by code_simp

lemma scenario_declared_linalool:
  "map da_name (allergens_to_declare (snd (validate_formula (Some example_standards)
      new_validator [linalool 0.05] ''cat1''))) = [''Linalool''] \<and>
   total_allergen_load (snd (validate_formula (Some example_standards) new_validator
      [linalool 0.05] ''cat1'')) = 5 / 100 \<and>
   violations (snd (validate_formula (Some example_standards) new_validator
      [linalool 0.05] ''cat1'')) = [] \<and>
   is_compliant (snd (validate_formula (Some example_standards) new_validator
      [linalool 0.05] ''cat1''))"
  by code_simp

lemma scenario_missing_standards_file:
  "snd (validate_formula None new_validator [coumarin 0.8, linalool 1.5] ''cat1'') =
     \<lparr>is_compliant = True, violations = [], allergens_to_declare = [],
      total_allergen_load = 0, product_category = ''cat1'', summary = Fully_compliant\<rparr>"
  by code_simp


section \<open>Properties of the retrieval engine\<close>

subsection \<open>The two matching loops compute the operator semantics and never raise\<close>

lemma operator_cases:
  "(if op = ''<'' \<and> is_number u \<and> is_number v then py_lt u v
    else if op = ''>'' \<and> is_number u \<and> is_number v then py_gt u v
    else if op = ''=='' then Inr (u = v)
    else if op = ''contains'' \<and> is_list u then py_in v u
    else Inr False) = Inr (spec_operator_holds op u v)"
  by (cases u; cases v)
     (auto simp: spec_operator_holds_def is_number_def is_list_def py_gt_def py_in_def)

lemma operator_cases_applicable:
  "(if op = ''<'' \<and> is_number u \<and> is_number v then py_lt u v
    else if op = ''>'' \<and> is_number u \<and> is_number v then py_gt u v
    else if op = ''=='' \<and> u = v then Inr True
    else if op = ''contains'' \<and> is_list u then py_in v u
    else Inr False) = Inr (spec_operator_holds op u v)"
  by (cases u; cases v)
     (auto simp: spec_operator_holds_def is_number_def is_list_def py_gt_def py_in_def)

lemma keyword_match_total:
  "keyword_match p r = Inr (if spec_matches p r then Some (retrieved_for r) else None)"
proof (cases "p (get_or (parameter (condition r)) '''')")
  case None
  then show ?thesis by (simp add: keyword_match_def spec_matches_def Let_def)
next
  case (Some u)
  show ?thesis
  proof (cases "get_or (cond_value (condition r)) PNone = PNone")
    case True
    then show ?thesis
      by (auto simp: keyword_match_def spec_matches_def Let_def get_or_def
          split: option.splits pyval.splits)
  next
    case False
    then obtain v where v: "cond_value (condition r) = Some v" "v \<noteq> PNone"
      by (cases "cond_value (condition r)") (auto simp: get_or_def)
    have sm: "spec_matches p r = spec_operator_holds (get_or (operator (condition r)) '''') u v"
      using Some v by (cases v) (simp_all add: spec_matches_def)
    have gv: "get_or (cond_value (condition r)) PNone = v"
      using v by (simp add: get_or_def)
    show ?thesis
      unfolding keyword_match_def Let_def gv
      using Some v(2)
      by (simp add: py_getitem_def operator_cases sm retrieved_for_def gv)
  qed
qed

lemma applicable_match_total: "applicable_match p r = Inr (spec_matches p r)"
proof (cases "p (get_or (parameter (condition r)) '''')")
  case None
  then show ?thesis by (simp add: applicable_match_def spec_matches_def Let_def)
next
  case (Some u)
  show ?thesis
  proof (cases "get_or (cond_value (condition r)) PNone = PNone")
    case True
    then show ?thesis
      by (auto simp: applicable_match_def spec_matches_def Let_def get_or_def
          split: option.splits pyval.splits)
  next
    case False
    then obtain v where v: "cond_value (condition r) = Some v" "v \<noteq> PNone"
      by (cases "cond_value (condition r)") (auto simp: get_or_def)
    have sm: "spec_matches p r = spec_operator_holds (get_or (operator (condition r)) '''') u v"
      using Some v by (cases v) (simp_all add: spec_matches_def)
    have gv: "get_or (cond_value (condition r)) PNone = v"
      using v by (simp add: get_or_def)
    show ?thesis
      unfolding applicable_match_def Let_def gv
      using Some v(2)
      by (simp add: py_getitem_def operator_cases_applicable sm)
  qed
qed

lemma keyword_scan_total:
  "keyword_scan p rs matched = Inr (matched @ map retrieved_for (filter (spec_matches p) rs))"
  by (induction rs arbitrary: matched) (simp_all add: keyword_match_total)

lemma applicable_scan_total:
  "applicable_scan p rs applicable = Inr (applicable @ filter (spec_matches p) rs)"
  by (induction rs arbitrary: applicable) (simp_all add: applicable_match_total)

lemma sort_key_all_equal:
  assumes "\<And>x. x \<in> set xs \<Longrightarrow> f x = (c::real)"
  shows "sort_key f xs = xs"
proof -
  have "map f xs = replicate (length xs) c"
    using assms by (induction xs) simp_all
  then have "sorted (map f xs)"
    by simp
  then show ?thesis by (rule sort_key_id_if_sorted)
qed

lemma keyword_query_total:
  "keyword_query rs p n = Inr (slice_to (map retrieved_for (filter (spec_matches p) rs)) n)"
proof -
  have "sort_key (\<lambda>x. - relevance_score x) (map retrieved_for (filter (spec_matches p) rs)) =
      map retrieved_for (filter (spec_matches p) rs)"
    by (rule sort_key_all_equal [where c = "- 0.9"]) (auto simp: retrieved_for_def)
  then show ?thesis
    by (simp add: keyword_query_def keyword_scan_total)
qed

lemma get_applicable_rules_total:
  "get_applicable_rules db file r p =
     Inr (if initialized r then r else initialize db file r True,
          filter (spec_matches p)
            (rules (if initialized r then r else initialize db file r True)))"
  by (simp add: get_applicable_rules_def applicable_scan_total Let_def)

subsection \<open>Slicing, loading and the retrieved records\<close>

lemma slice_to_nonneg: "0 \<le> n \<Longrightarrow> slice_to xs n = take (nat n) xs"
  by (simp add: slice_to_def)

lemma rules_load_fold:
  "rules (foldl (\<lambda>r d. r\<lparr>rules := rules r @ [make_rule d]\<rparr>) r ds) = rules r @ map make_rule ds"
  by (induction ds arbitrary: r) simp_all

lemma rules_initialize:
  "rules (initialize db file r u) =
     (case file of None \<Rightarrow> [] | Some data \<Rightarrow> rules r @ map make_rule (get_or data []))"
  by (simp add: initialize_def load_rules_def setup_vector_db_def setup_embedder_def
      rules_load_fold Let_def split: option.splits)

lemma retrieved_for_simps:
  "rule (retrieved_for x) = x" "relevance_score (retrieved_for x) = 9 / 10"
  by (simp_all add: retrieved_for_def)

lemma take_min_length: "take (min k (length xs)) xs = take k xs"
  by (cases "k \<le> length xs") (simp_all add: min_def)

lemma map_rule_retrieved: "map rule (map retrieved_for xs) = xs"
  by (induction xs) (simp_all add: retrieved_for_simps)

lemma map_score_retrieved:
  "map relevance_score (map retrieved_for xs) = replicate (length xs) (9 / 10)"
  by (induction xs) (simp_all add: retrieved_for_simps)

subsection \<open>The public query and initialization\<close>

lemma query_after_init:
  assumes "collection r' = None" and "keyword_query (rules r') p n = Inr res"
    and "r' = (if initialized r then r else initialize db file r True)"
  shows "query db file r p n =
     (case build_query_text p of Inl e \<Rightarrow> Inl e | Inr text \<Rightarrow> Inr (r', res))"
proof -
  have "query db file r p n =
      (case build_query_text p of
         Inl e \<Rightarrow> Inl e
       | Inr text \<Rightarrow>
           (case (if collection r' \<noteq> None then vector_query db r' text n
                  else keyword_query (rules r') p n) of
              Inl e \<Rightarrow> Inl e
            | Inr res \<Rightarrow> Inr (r', res)))"
    unfolding query_def Let_def assms(3) by simp
  then show ?thesis
    by (cases "build_query_text p") (simp_all add: assms(1,2))
qed

lemma ph_parts_number: "p ''ph'' = Some (PNum x) \<Longrightarrow> \<exists>ps. ph_parts p = Inr ps"
  by (cases "x < 5.2"; cases "5.8 < x") (simp_all add: ph_parts_def py_gt_def)

lemma temperature_parts_number:
  "p ''temperature'' = Some (PNum x) \<Longrightarrow> \<exists>ps. temperature_parts p = Inr ps"
  by (cases "37.0 < x"; cases "x < 36.0") (simp_all add: temperature_parts_def py_gt_def)

text \<open>The text of the semantic query is built whenever the profile is typed as documented.\<close>

lemma build_query_text_typed:
  assumes "p ''ph'' = None \<or> (\<exists>x. p ''ph'' = Some (PNum x))"
    and "p ''skin_type'' = None \<or> (\<exists>s. p ''skin_type'' = Some (PStr s))"
    and "p ''temperature'' = None \<or> (\<exists>x. p ''temperature'' = Some (PNum x))"
    and "p ''allergies'' = None \<or> (\<exists>xs. p ''allergies'' = Some (PList xs))"
  shows "\<exists>text. build_query_text p = Inr text"
proof -
  from assms(1) obtain p1 where "ph_parts p = Inr p1"
    using ph_parts_number [of p] by (auto simp: ph_parts_def)
  moreover from assms(2) obtain p2 where "skin_parts p = Inr p2"
    by (auto simp: skin_parts_def py_lower_def)
  moreover from assms(3) obtain p3 where "temperature_parts p = Inr p3"
    using temperature_parts_number [of p] by (auto simp: temperature_parts_def)
  moreover from assms(4) obtain p4 where "allergy_parts p = Inr p4"
    by (auto simp: allergy_parts_def py_iter_def)
  ultimately show ?thesis
    by (simp add: build_query_text_def)
qed

text \<open>Each call of \<open>initialize\<close> on an existing rules file appends its rules once more.\<close>

lemma initialize_twice_rules:
  "rules (initialize db (Some data) (initialize db (Some data) r u) u') =
     rules r @ map make_rule (get_or data []) @ map make_rule (get_or data [])"
  by (simp add: rules_initialize)

text \<open>
  For \<open>n \<ge> 0\<close> the fallback path \<open>keyword_query\<close> returns the first \<open>min n k\<close> of the
  \<open>k\<close> rules of \<open>get_applicable_rules\<close>, in the order of the rule list, each with
  relevance 0.9; \<open>query\<close> on an engine without a collection returns this list if the
  text of the semantic query can be built.
\<close>

lemma keyword_query_prefix_of_applicable:
  assumes "0 \<le> n"
  shows "\<exists>r' applicable res.
     get_applicable_rules db file r p = Inr (r', applicable) \<and>
     keyword_query (rules r') p n = Inr res \<and>
     map rule res = take (min (nat n) (length applicable)) applicable \<and>
     map relevance_score res = replicate (min (nat n) (length applicable)) 0.9 \<and>
     (collection r' = None \<longrightarrow>
        query db file r p n =
          (case build_query_text p of Inl e \<Rightarrow> Inl e | Inr text \<Rightarrow> Inr (r', res)))"
proof -
  define r' where "r' = (if initialized r then r else initialize db file r True)"
  define app where "app = filter (spec_matches p) (rules r')"
  define res where "res = map retrieved_for (take (nat n) app)"
  have a: "get_applicable_rules db file r p = Inr (r', app)"
    unfolding r'_def app_def by (rule get_applicable_rules_total)
  have q: "keyword_query (rules r') p n = Inr res"
    using assms by (simp add: keyword_query_total slice_to_nonneg take_map res_def app_def)
  have rs: "map rule res = take (min (nat n) (length app)) app"
    unfolding res_def map_rule_retrieved by (simp only: take_min_length)
  have sc: "map relevance_score res = replicate (min (nat n) (length app)) 0.9"
    unfolding res_def map_score_retrieved by (simp add: min.commute)
  have pq: "collection r' = None \<longrightarrow> query db file r p n =
      (case build_query_text p of Inl e \<Rightarrow> Inl e | Inr text \<Rightarrow> Inr (r', res))"
    using q r'_def by (auto intro: query_after_init)
  from a q rs sc pq show ?thesis
    by (intro exI [of _ r'] exI [of _ app] exI [of _ res] conjI)
qed


section \<open>Claims about the retrieval engine\<close>

lemma example_rag_applicable:
  "get_applicable_rules no_vector_db (Some (Some example_rule_data)) example_rag
     dry_acidic_profile = Inr (example_rag, [make_rule acidic_data, make_rule dry_data])"
  by code_simp

text \<open>
  C4. In keyword-fallback mode \<open>query\<close> is claimed to return, for every profile and
  every \<open>n \<ge> 0\<close>, the first \<open>min n k\<close> rules of \<open>get_applicable_rules\<close>, each with
  relevance 0.9. The fallback path \<open>keyword_query\<close> does
  (\<open>keyword_query_prefix_of_applicable\<close>), but \<open>query\<close> reaches it only after building
  the text of the semantic query: for the profile with \<open>ph\<close> the string acidic and dry
  skin, \<open>get_applicable_rules\<close> returns the rule \<open>dry\<close> and the fallback path would
  return it with relevance 0.9, while \<open>query\<close> raises TypeError.
\<close>

theorem query_raises_where_rules_apply:
  "initialized example_rag \<and> collection example_rag = None \<and>
   get_applicable_rules no_vector_db (Some (Some example_rule_data)) example_rag
     mistyped_dry_profile = Inr (example_rag, [make_rule dry_data]) \<and>
   keyword_query (rules example_rag) mistyped_dry_profile 5 =
     Inr [retrieved_for (make_rule dry_data)] \<and>
   query no_vector_db (Some (Some example_rule_data)) example_rag mistyped_dry_profile 5 =
     Inl TypeError"
  by code_simp

text \<open>
  C5. For every profile and every \<open>n \<ge> 0\<close>, the fallback query returns at most \<open>n\<close>
  rules, each of which satisfies its condition under the operator semantics of the
  specification (\<open>spec_matches\<close>); \<open>get_applicable_rules\<close> returns every rule of the
  loaded list that matches under the same semantics, uncapped and in order; so the rules
  of the fallback query are among them. On an engine without a collection, \<open>query\<close>
  returns this very list once the text of the semantic query is built.
\<close>

theorem fallback_query_sound_and_capped:
  assumes "0 \<le> n"
  shows "\<exists>r' applicable res.
     get_applicable_rules db file r p = Inr (r', applicable) \<and>
     keyword_query (rules r') p n = Inr res \<and>
     length res \<le> nat n \<and>
     list_all (\<lambda>x. spec_matches p (rule x)) res \<and>
     applicable = filter (spec_matches p) (rules r') \<and>
     set (map rule res) \<subseteq> set applicable \<and>
     (collection r' = None \<longrightarrow>
        query db file r p n =
          (case build_query_text p of Inl e \<Rightarrow> Inl e | Inr text \<Rightarrow> Inr (r', res)))"
proof -
  define r' where "r' = (if initialized r then r else initialize db file r True)"
  define app where "app = filter (spec_matches p) (rules r')"
  define res where "res = map retrieved_for (take (nat n) app)"
  have a: "get_applicable_rules db file r p = Inr (r', app)"
    unfolding r'_def app_def by (rule get_applicable_rules_total)
  have q: "keyword_query (rules r') p n = Inr res"
    using assms by (simp add: keyword_query_total slice_to_nonneg take_map res_def app_def)
  have rules: "map rule res = take (nat n) app"
    unfolding res_def by (rule map_rule_retrieved)
  have len: "length res \<le> nat n"
    by (simp add: res_def)
  have sub: "set (map rule res) \<subseteq> set app"
    unfolding rules by (rule set_take_subset)
  have "spec_matches p (rule x)" if "x \<in> set res" for x
  proof -
    from that have "rule x \<in> set (map rule res)" by simp
    with sub have "rule x \<in> set app" by blast
    then show ?thesis by (simp add: app_def)
  qed
  then have sound: "list_all (\<lambda>x. spec_matches p (rule x)) res"
    by (simp add: list_all_iff)
  have pq: "collection r' = None \<longrightarrow> query db file r p n =
      (case build_query_text p of Inl e \<Rightarrow> Inl e | Inr text \<Rightarrow> Inr (r', res))"
    using q r'_def by (auto intro: query_after_init)
  from a q len sound app_def sub pq show ?thesis
    by (intro exI [of _ r'] exI [of _ app] exI [of _ res] conjI)
qed

text \<open>Witness: the same profile and rules, asked for one rule.\<close>

theorem fallback_query_sound_and_capped_witness:
  "(0::int) \<le> 1 \<and>
   (\<exists>res. keyword_query (rules example_rag) dry_acidic_profile 1 = Inr res \<and>
      length res \<le> 1 \<and> list_all (\<lambda>x. spec_matches dry_acidic_profile (rule x)) res \<and>
      set (map rule res) \<subseteq> set [make_rule acidic_data, make_rule dry_data])"
proof -
  have n: "(0::int) \<le> 1" by simp
  from fallback_query_sound_and_capped [OF n, of no_vector_db
      "Some (Some example_rule_data)" example_rag dry_acidic_profile]
  obtain r' applicable res where
    a: "get_applicable_rules no_vector_db (Some (Some example_rule_data)) example_rag
          dry_acidic_profile = Inr (r', applicable)"
    and q: "keyword_query (rules r') dry_acidic_profile 1 = Inr res"
    and len: "length res \<le> nat 1"
    and sound: "list_all (\<lambda>x. spec_matches dry_acidic_profile (rule x)) res"
    and sub: "set (map rule res) \<subseteq> set applicable"
    by blast
  from a have r': "r' = example_rag"
    and app: "applicable = [make_rule acidic_data, make_rule dry_data]"
    by (simp_all add: example_rag_applicable)
  from len have "length res \<le> 1" by simp
  with q sound sub show ?thesis
    unfolding r' app by simp
qed

text \<open>
  C7. Loading and initialization are claimed idempotent. \<open>load_standards\<close> is
  (\<open>load_standards_idem\<close>); \<open>initialize\<close> is not: it appends the rules of the file to
  the rule list on every call, so a second call leaves every rule twice.
\<close>

theorem initialize_twice_duplicates_rules:
  "map rule_id (rules (initialize no_vector_db (Some (Some example_rule_data)) new_rag True)) =
     [''acidic'', ''alkaline'', ''dry''] \<and>
   map rule_id (rules (initialize no_vector_db (Some (Some example_rule_data))
     (initialize no_vector_db (Some (Some example_rule_data)) new_rag True) True)) =
     [''acidic'', ''alkaline'', ''dry'', ''acidic'', ''alkaline'', ''dry'']"
  by code_simp

text \<open>
  C8. A type mismatch is claimed to make a rule a non-match without \<open>query\<close> or
  \<open>get_applicable_rules\<close> raising. The two matching loops never raise
  (\<open>keyword_query_total\<close>, \<open>get_applicable_rules_total\<close>), but \<open>query\<close> builds the text
  of the semantic query before it chooses the fallback path, and there compares the
  profile's \<open>ph\<close> with 5.2 unguarded: on a fallback engine, a profile whose \<open>ph\<close> is a
  string makes \<open>query\<close> raise TypeError, where the loops return no rule.
\<close>

theorem query_raises_on_mistyped_profile:
  "initialized example_rag \<and> collection example_rag = None \<and>
   query no_vector_db (Some (Some example_rule_data)) example_rag mistyped_profile 5 =
     Inl TypeError \<and>
   keyword_query (rules example_rag) mistyped_profile 5 = Inr [] \<and>
   get_applicable_rules no_vector_db (Some (Some example_rule_data)) example_rag
     mistyped_profile = Inr (example_rag, [])"
  by code_simp

end
